theory Spec2Isabelle
  imports Complex_Main "HOL-Library.Multiset"
begin

section \<open>Python values\<close>

text \<open>
  A Python \<^verbatim>\<open>str\<close> is a sequence of Unicode code points, so it is a list of naturals
  (the resume texts are partly Arabic, outside the 8-bit \<^typ>\<open>char\<close>). \<open>ustr\<close> embeds
  an ASCII literal of the source. A Python \<^verbatim>\<open>float\<close> is taken as an exact \<^typ>\<open>real\<close>
  throughout: rounding error of the binary representation is outside this development.
\<close>

type_synonym pystr = "nat list"

definition ustr :: "string \<Rightarrow> pystr" where
  "ustr s = map of_char s"

text \<open>\<^verbatim>\<open>a or b\<close> on an \<^verbatim>\<open>Optional[str]\<close> and a \<^verbatim>\<open>str\<close>: \<^verbatim>\<open>None\<close> and \<^verbatim>\<open>""\<close> are falsy.\<close>

definition or_str :: "pystr option \<Rightarrow> pystr \<Rightarrow> pystr" where
  "or_str a b = (case a of None \<Rightarrow> b | Some s \<Rightarrow> if s = [] then b else s)"

text \<open>\<^verbatim>\<open>a or b\<close> on two \<^verbatim>\<open>Optional[str]\<close>: the first truthy operand, else the second.\<close>

definition or_opt :: "pystr option \<Rightarrow> pystr option \<Rightarrow> pystr option" where
  "or_opt a b = (case a of None \<Rightarrow> b | Some s \<Rightarrow> if s = [] then b else Some s)"

text \<open>
  \<^verbatim>\<open>str.strip()\<close> without argument removes leading and trailing white space, which is
  the set of code points on which \<^verbatim>\<open>str.isspace()\<close> holds.
\<close>

definition py_isspace :: "nat \<Rightarrow> bool" where
  "py_isspace c \<longleftrightarrow>
     (0x09 \<le> c \<and> c \<le> 0x0D) \<or> (0x1C \<le> c \<and> c \<le> 0x20) \<or> c = 0x85 \<or> c = 0xA0 \<or>
     c = 0x1680 \<or> (0x2000 \<le> c \<and> c \<le> 0x200A) \<or> c = 0x2028 \<or> c = 0x2029 \<or>
     c = 0x202F \<or> c = 0x205F \<or> c = 0x3000"

definition py_strip :: "pystr \<Rightarrow> pystr" where
  "py_strip s = rev (dropWhile py_isspace (rev (dropWhile py_isspace s)))"

text \<open>\<^verbatim>\<open>sep.join(xs)\<close>.\<close>

fun py_join :: "pystr \<Rightarrow> pystr list \<Rightarrow> pystr" where
  "py_join sep [] = []"
| "py_join sep [x] = x"
| "py_join sep (x # y # ys) = x @ sep @ py_join sep (y # ys)"

text \<open>
  \<^verbatim>\<open>round(x, ndigits)\<close> on a float: to the nearest multiple of \<open>10 ^ -ndigits\<close>, a tie
  going to the even neighbour.
\<close>

definition round_half_even :: "real \<Rightarrow> int" where
  "round_half_even x =
     (let f = \<lfloor>x\<rfloor>; r = x - of_int f in
      if r < 1 / 2 then f
      else if 1 / 2 < r then f + 1
      else if even f then f else f + 1)"

definition py_round :: "real \<Rightarrow> nat \<Rightarrow> real" where
  "py_round x ndigits = of_int (round_half_even (x * 10 ^ ndigits)) / 10 ^ ndigits"

section \<open>The optimizer: language helpers (optimizer.py)\<close>

definition MAX_RETRIES :: nat where
  "MAX_RETRIES = 3"

definition LANGUAGE_LABELS :: "pystr \<rightharpoonup> pystr" where
  "LANGUAGE_LABELS = [ustr ''en'' \<mapsto> ustr ''English'', ustr ''ar'' \<mapsto> ustr ''Arabic'']"

text \<open>The character class of \<^verbatim>\<open>ARABIC_LETTER_RE\<close>: five ranges of code points.\<close>

definition ARABIC_LETTER_RE :: "nat \<Rightarrow> bool" where
  "ARABIC_LETTER_RE c \<longleftrightarrow>
     (0x0600 \<le> c \<and> c \<le> 0x06FF) \<or> (0x0750 \<le> c \<and> c \<le> 0x077F) \<or>
     (0x08A0 \<le> c \<and> c \<le> 0x08FF) \<or> (0xFB50 \<le> c \<and> c \<le> 0xFDFF) \<or>
     (0xFE70 \<le> c \<and> c \<le> 0xFEFF)"

definition language_name :: "pystr option \<Rightarrow> pystr" where
  "language_name code =
     (case LANGUAGE_LABELS (or_str code []) of
        Some label \<Rightarrow> label
      | None \<Rightarrow> ustr ''English'')"

definition build_language_instructions ::
  "pystr option \<Rightarrow> pystr option \<Rightarrow> pystr option \<Rightarrow> pystr" where
  \<open>build_language_instructions resume_lang jd_lang desired_output_lang =
     (let target_lang = or_str (or_opt desired_output_lang resume_lang) (ustr ''en'');
          resume_label = language_name resume_lang;
          jd_label = language_name jd_lang;
          target_label = language_name (Some target_lang)
      in ustr ''Language context:\<newline>- Resume language: '' @ resume_label
       @ ustr ''\<newline>- Job description language: '' @ jd_label
       @ ustr ''\<newline>- Desired output language: '' @ target_label
       @ ustr ''\<newline>\<newline>Rules:\<newline>- preview_markdown MUST be written in '' @ target_label
       @ ustr ''.\<newline>- If the resume or job description is in a different language, translate the content into ''
       @ target_label
       @ ustr ''.\<newline>- Keep proper nouns (company names, product names, certifications) in their original language.\<newline>- If preserving ATS keywords helps, you may keep the original keyword in parentheses.'')\<close>

text \<open>
  \<^verbatim>\<open>str.isalpha\<close> is the Unicode table of letters; the functions below take it as the
  parameter \<open>isalpha\<close>. \<open>isalpha_latin_arabic\<close> is the table restricted to the Basic
  Latin letters and the Arabic letters U+0620 to U+064A, for running examples on texts
  over those letters, digits, punctuation and white space.
\<close>

definition isalpha_latin_arabic :: "nat \<Rightarrow> bool" where
  "isalpha_latin_arabic c \<longleftrightarrow>
     (0x41 \<le> c \<and> c \<le> 0x5A) \<or> (0x61 \<le> c \<and> c \<le> 0x7A) \<or> (0x0620 \<le> c \<and> c \<le> 0x064A)"

definition arabic_ratio :: "(nat \<Rightarrow> bool) \<Rightarrow> pystr \<Rightarrow> real" where
  "arabic_ratio isalpha text =
     (let letters = filter isalpha text in
      if letters = [] then 0
      else (let arabic_letters = filter ARABIC_LETTER_RE text in
            real (length arabic_letters) / real (length letters)))"

definition needs_translation :: "(nat \<Rightarrow> bool) \<Rightarrow> pystr \<Rightarrow> pystr \<Rightarrow> bool" where
  "needs_translation isalpha text target_lang =
     (if py_strip text = [] then False
      else if target_lang = ustr ''ar'' then arabic_ratio isalpha text < 15 / 100
      else if target_lang = ustr ''en'' then 15 / 100 < arabic_ratio isalpha text
      else False)"

section \<open>The optimizer: schemas and the generation backend (optimizer.py, libs/ai/base.py)\<close>

record ExperienceItem =
  role :: pystr
  company :: pystr
  duration :: pystr
  highlights :: "pystr list"

record ContactInfo =
  email :: "pystr option"
  phone :: "pystr option"
  linkedin :: "pystr option"

text \<open>The field \<^verbatim>\<open>note\<close> of \<^verbatim>\<open>EvidenceItem\<close> is \<open>evidence_note\<close> here.\<close>

record EvidenceItem =
  source :: pystr
  snippet :: pystr
  evidence_note :: pystr

record ExtractedEntities =
  skills :: "pystr list"
  tools :: "pystr list"
  education :: "pystr list"
  experience :: "ExperienceItem list"
  contact :: "ContactInfo option"

record AlignmentInsights =
  matched :: "pystr list"
  missing :: "pystr list"
  weak :: "pystr list"
  evidence :: "EvidenceItem list"

record OptimizationResultCore =
  score :: int
  missing_keywords :: "pystr list"
  covered_keywords :: "pystr list"
  change_log :: "pystr list"
  preview_markdown :: pystr

text \<open>
  \<^verbatim>\<open>OptimizationResult\<close> repeats the five fields of \<^verbatim>\<open>OptimizationResultCore\<close> and adds
  four, so it is the record extension.
\<close>

record OptimizationResult = OptimizationResultCore +
  detected_resume_lang :: "pystr option"
  detected_jd_lang :: "pystr option"
  extracted_entities :: "ExtractedEntities option"
  alignment_insights :: "AlignmentInsights option"

record ReliabilityMetrics =
  invalid_json_attempts :: int
  total_attempts :: int
  latency_seconds :: real
  last_run_valid :: bool

text \<open>The field defaults of \<^verbatim>\<open>ReliabilityMetrics()\<close>.\<close>

definition ReliabilityMetrics_init :: ReliabilityMetrics where
  "ReliabilityMetrics_init =
     \<lparr>invalid_json_attempts = 0, total_attempts = 0, latency_seconds = 0, last_run_valid = True\<rparr>"

text \<open>
  The three classes passed as \<^verbatim>\<open>json_schema\<close>, the arguments of one
  \<^verbatim>\<open>generate_response\<close> call, and what the call gives back: a \<^verbatim>\<open>str\<close> or an instance of one
  of the models, or a raised exception. Every exception here is an \<^verbatim>\<open>Exception\<close>, which
  is what the \<^verbatim>\<open>except\<close> clauses of the optimizer catch.
\<close>

datatype schema = ExtractedEntities_schema | AlignmentInsights_schema | OptimizationResultCore_schema

record request =
  system_prompt :: pystr
  user_prompt :: pystr
  json_schema :: "schema option"
  temperature :: real

datatype exn = ValidationError pystr | OtherException pystr

datatype llm_value =
  Text pystr
| Entities ExtractedEntities
| Alignment AlignmentInsights
| Core OptimizationResultCore

text \<open>
  \<^verbatim>\<open>BaseLLMProvider\<close>: the backend is any object with these two methods. Its answers may
  depend on what it was asked before, so each method takes the state \<open>'w\<close> of the world
  outside the program and returns the next one.
\<close>

record 'w llm_provider =
  generate_response :: "request \<Rightarrow> 'w \<Rightarrow> (exn + llm_value) \<times> 'w"
  get_embedding :: "pystr \<Rightarrow> 'w \<Rightarrow> (exn + real list) \<times> 'w"

text \<open>
  The state of a \<^verbatim>\<open>ResumeOptimizer\<close>: \<^verbatim>\<open>self.metrics\<close>, the world its backend lives in, and
  the requests sent to the backend so far, oldest first. \<open>calls\<close> is not a field of the
  source: it records the generation calls so that their number can be stated.
\<close>

record 'w optimizer =
  world :: 'w
  metrics :: ReliabilityMetrics
  calls :: "request list"

definition llm_generate ::
  "'w llm_provider \<Rightarrow> request \<Rightarrow> 'w optimizer \<Rightarrow> (exn + llm_value) \<times> 'w optimizer" where
  "llm_generate llm req s =
     (let (r, w) = generate_response llm req (world s)
      in (r, s\<lparr>world := w, calls := calls s @ [req]\<rparr>))"

definition count_invalid :: "'w optimizer \<Rightarrow> 'w optimizer" where
  "count_invalid s =
     s\<lparr>metrics := (metrics s)\<lparr>invalid_json_attempts := invalid_json_attempts (metrics s) + 1\<rparr>\<rparr>"

definition count_attempt :: "'w optimizer \<Rightarrow> 'w optimizer" where
  "count_attempt s =
     s\<lparr>metrics := (metrics s)\<lparr>total_attempts := total_attempts (metrics s) + 1\<rparr>\<rparr>"

section \<open>The optimizer: the pipeline (optimizer.py)\<close>

definition translate_system_prompt :: "pystr \<Rightarrow> pystr" where
  \<open>translate_system_prompt target_label =
     ustr ''You are a professional translator.\<newline>Translate the resume into '' @ target_label
     @ ustr ''.\<newline>\<newline>Rules:\<newline>- Preserve Markdown formatting and headings.\<newline>- Keep names, emails, URLs, and proper nouns as-is.\<newline>- Output ONLY the translated Markdown.''\<close>

text \<open>
  \<^verbatim>\<open>translate_markdown\<close>: one free-text call. An exception of the backend leaves the
  method (\<open>Inl\<close>); an answer that is not a \<^verbatim>\<open>str\<close> gives the text back unchanged.
\<close>

definition translate_markdown ::
  "'w llm_provider \<Rightarrow> pystr \<Rightarrow> pystr \<Rightarrow> 'w optimizer \<Rightarrow> (exn + pystr) \<times> 'w optimizer" where
  "translate_markdown llm text target_lang s =
     (let target_label = language_name (Some target_lang);
          (translated, s') = llm_generate llm
             \<lparr>system_prompt = translate_system_prompt target_label, user_prompt = text,
              json_schema = None, temperature = 2 / 10\<rparr> s
      in case translated of
           Inl e \<Rightarrow> (Inl e, s')
         | Inr (Text t) \<Rightarrow> (Inr (py_strip t), s')
         | Inr _ \<Rightarrow> (Inr text, s'))"

definition extract_system_prompt :: pystr where
  \<open>extract_system_prompt =
     ustr ''You are a resume parser. Extract structured information from the resume.\<newline>\<newline>Return JSON with ALL of these fields (use empty list [] if not found):\<newline>- skills: list of technical and soft skills (required, use [] if none)\<newline>- tools: list of tools/technologies mentioned (required, use [] if none)\<newline>- education: list of degrees/certifications (required, use [] if none)\<newline>- experience: list of {role, company, duration, highlights} (required, use [] if none)\<newline>- contact: {email, phone, linkedin} or null if not found\<newline>\<newline>IMPORTANT: Always include all fields in your response, even if empty. Be thorough but concise.''\<close>

definition empty_entities :: ExtractedEntities where
  "empty_entities = \<lparr>skills = [], tools = [], education = [], experience = [], contact = None\<rparr>"

text \<open>
  The loop \<^verbatim>\<open>for attempt in range(MAX_RETRIES)\<close> of \<^verbatim>\<open>extract_entities\<close>, with the number
  of attempts left. An answer of the wrong class is neither returned nor counted.
\<close>

fun extract_entities_loop ::
  "'w llm_provider \<Rightarrow> request \<Rightarrow> nat \<Rightarrow> 'w optimizer \<Rightarrow> ExtractedEntities \<times> 'w optimizer" where
  "extract_entities_loop llm req 0 s = (empty_entities, s)"
| "extract_entities_loop llm req (Suc n) s =
     (case llm_generate llm req s of
        (Inr (Entities result), s') \<Rightarrow> (result, s')
      | (Inr _, s') \<Rightarrow> extract_entities_loop llm req n s'
      | (Inl e, s') \<Rightarrow> extract_entities_loop llm req n (count_invalid s'))"

definition extract_entities ::
  "'w llm_provider \<Rightarrow> pystr \<Rightarrow> 'w optimizer \<Rightarrow> ExtractedEntities \<times> 'w optimizer" where
  "extract_entities llm resume_text s =
     extract_entities_loop llm
       \<lparr>system_prompt = extract_system_prompt, user_prompt = resume_text,
        json_schema = Some ExtractedEntities_schema, temperature = 3 / 10\<rparr>
       MAX_RETRIES s"

definition alignment_system_prompt :: pystr where
  \<open>alignment_system_prompt =
     ustr ''You are a resume-job matcher. Analyze alignment between resume and job description.\<newline>\<newline>Return JSON with ALL of these fields (use empty list [] if none):\<newline>- matched: skills/requirements that both resume and job have (required, use [] if none)\<newline>- missing: requirements in job that resume lacks (required, use [] if none)\<newline>- weak: areas where resume partially matches but needs improvement (required, use [] if none)\<newline>- evidence: list of {source: "resume"|"job", snippet: "...", note: "explanation"} (required, use [] if none)\<newline>\<newline>IMPORTANT: Always include all fields in your response. Focus on concrete, actionable insights.''\<close>

definition alignment_user_prompt :: "ExtractedEntities \<Rightarrow> pystr \<Rightarrow> pystr" where
  "alignment_user_prompt entities job_description =
     ustr ''Resume Skills: '' @ py_join (ustr '', '') (skills entities @ tools entities)
     @ ustr ''\<newline>\<newline>Job Description:\<newline>'' @ job_description"

definition empty_alignment :: AlignmentInsights where
  "empty_alignment = \<lparr>matched = [], missing = [], weak = [], evidence = []\<rparr>"

fun analyze_alignment_loop ::
  "'w llm_provider \<Rightarrow> request \<Rightarrow> nat \<Rightarrow> 'w optimizer \<Rightarrow> AlignmentInsights \<times> 'w optimizer" where
  "analyze_alignment_loop llm req 0 s = (empty_alignment, s)"
| "analyze_alignment_loop llm req (Suc n) s =
     (case llm_generate llm req s of
        (Inr (Alignment result), s') \<Rightarrow> (result, s')
      | (Inr _, s') \<Rightarrow> analyze_alignment_loop llm req n s'
      | (Inl e, s') \<Rightarrow> analyze_alignment_loop llm req n (count_invalid s'))"

definition analyze_alignment ::
  "'w llm_provider \<Rightarrow> pystr \<Rightarrow> pystr \<Rightarrow> ExtractedEntities \<Rightarrow> 'w optimizer
     \<Rightarrow> AlignmentInsights \<times> 'w optimizer" where
  "analyze_alignment llm resume_text job_description entities s =
     analyze_alignment_loop llm
       \<lparr>system_prompt = alignment_system_prompt,
        user_prompt = alignment_user_prompt entities job_description,
        json_schema = Some AlignmentInsights_schema, temperature = 3 / 10\<rparr>
       MAX_RETRIES s"


text \<open>
  The payload of an \<^verbatim>\<open>optimize\<close> task, a JSON object written by the job router. Each key
  holds a string (\<^verbatim>\<open>is_refinement\<close> a boolean); a field is \<open>None\<close> when the key is absent,
  and for the instructions and the language codes also when the value is null. The
  language codes can be read under a snake-case and a camel-case key.
\<close>

record payload =
  p_job_id :: "pystr option"
  p_user_id :: "pystr option"
  p_resume_id :: "pystr option"
  p_resume_version_id :: "pystr option"
  p_resume_text :: "pystr option"
  p_job_description :: "pystr option"
  p_instructions :: "pystr option"
  p_resume_lang :: "pystr option"
  p_resumeLang :: "pystr option"
  p_jd_lang :: "pystr option"
  p_jdLang :: "pystr option"
  p_desired_output_lang :: "pystr option"
  p_desiredOutputLang :: "pystr option"
  p_is_refinement :: "bool option"

definition optimize_system_prompt :: "pystr \<Rightarrow> pystr" where
  \<open>optimize_system_prompt language_instructions =
     ustr ''You are an expert resume optimization assistant.\<newline>Analyze the resume against the job description and provide ALL of the following:\<newline>1. score: A match score from 0-100 (integer, required)\<newline>2. missing_keywords: Keywords from JD missing in resume (list of strings, required - use [] if none)\<newline>3. covered_keywords: Keywords from JD already in resume (list of strings, required - use [] if none)\<newline>4. change_log: Specific changes to make (list of strings, required - use [] if none)\<newline>5. preview_markdown: An improved resume in Markdown format (string, required)\<newline>\<newline>IMPORTANT: Always include ALL 5 fields in your response. Respond in valid JSON format.\<newline>\<newline>''
     @ language_instructions\<close>

definition optimize_user_prompt :: "pystr \<Rightarrow> pystr \<Rightarrow> pystr option \<Rightarrow> pystr" where
  "optimize_user_prompt resume_text job_description instructions =
     ustr ''Resume:\<newline>'' @ resume_text
     @ ustr ''\<newline>\<newline>Job Description:\<newline>'' @ job_description
     @ ustr ''\<newline>\<newline>Additional Instructions:\<newline>'' @ or_str instructions (ustr ''None'')"

text \<open>
  The rewrite loop of \<^verbatim>\<open>optimize\<close>: every attempt is counted first, then made; an
  \<^verbatim>\<open>OptimizationResultCore\<close> ends the loop.
\<close>

fun optimize_loop ::
  "'w llm_provider \<Rightarrow> request \<Rightarrow> nat \<Rightarrow> 'w optimizer
     \<Rightarrow> OptimizationResultCore option \<times> 'w optimizer" where
  "optimize_loop llm req 0 s = (None, s)"
| "optimize_loop llm req (Suc n) s =
     (case llm_generate llm req (count_attempt s) of
        (Inr (Core llm_result), s') \<Rightarrow> (Some llm_result, s')
      | (Inr _, s') \<Rightarrow> optimize_loop llm req n s'
      | (Inl e, s') \<Rightarrow> optimize_loop llm req n (count_invalid s'))"

text \<open>
  \<^verbatim>\<open>optimize\<close> is modelled in two parts. \<open>optimize_stages\<close> is its body up to and
  including the lines under \<^verbatim>\<open># Calculate metrics\<close>: the metrics are reset, the payload is
  read, the three generation stages run, and latency and validity are recorded.
  \<open>time_time\<close> reads the clock of the world. It returns the local variables the rest of
  the body uses.
\<close>

definition optimize_stages ::
  "'w llm_provider \<Rightarrow> ('w \<Rightarrow> real) \<Rightarrow> payload \<Rightarrow> 'w optimizer
     \<Rightarrow> (pystr \<times> pystr option \<times> pystr option \<times> ExtractedEntities \<times> AlignmentInsights
          \<times> OptimizationResultCore option) \<times> 'w optimizer" where
  "optimize_stages llm time_time pl s =
     (let start_time = time_time (world s);
          s0 = s\<lparr>metrics := ReliabilityMetrics_init\<rparr>;
          resume_text = (case p_resume_text pl of None \<Rightarrow> [] | Some v \<Rightarrow> v);
          job_description = (case p_job_description pl of None \<Rightarrow> [] | Some v \<Rightarrow> v);
          instructions = p_instructions pl;
          resume_lang = or_opt (p_resume_lang pl) (p_resumeLang pl);
          jd_lang = or_opt (p_jd_lang pl) (p_jdLang pl);
          desired_output_lang = or_opt (p_desired_output_lang pl) (p_desiredOutputLang pl);
          language_instructions =
            build_language_instructions resume_lang jd_lang desired_output_lang;
          (entities, s1) = extract_entities llm resume_text s0;
          (alignment, s2) = analyze_alignment llm resume_text job_description entities s1;
          (core_result, s3) = optimize_loop llm
             \<lparr>system_prompt = optimize_system_prompt language_instructions,
              user_prompt = optimize_user_prompt resume_text job_description instructions,
              json_schema = Some OptimizationResultCore_schema, temperature = 5 / 10\<rparr>
             MAX_RETRIES s2;
          end_time = time_time (world s3);
          s4 = s3\<lparr>metrics := (metrics s3)
                 \<lparr>latency_seconds := py_round (end_time - start_time) 2,
                  last_run_valid := (core_result \<noteq> None)\<rparr>\<rparr>
      in ((resume_text, resume_lang, desired_output_lang, entities, alignment, core_result), s4))"

text \<open>
  \<open>optimize_build\<close> is the rest of the body, from \<^verbatim>\<open># Build full result\<close> to the
  \<^verbatim>\<open>return\<close>: the conditional translation of a successful rewrite, or the fallback result.
\<close>

definition optimize_build ::
  "(nat \<Rightarrow> bool) \<Rightarrow> 'w llm_provider
     \<Rightarrow> (pystr \<times> pystr option \<times> pystr option \<times> ExtractedEntities \<times> AlignmentInsights
          \<times> OptimizationResultCore option)
     \<Rightarrow> 'w optimizer \<Rightarrow> (OptimizationResult \<times> ReliabilityMetrics) \<times> 'w optimizer" where
  "optimize_build isalpha llm locals s =
     (case locals of (resume_text, resume_lang, desired_output_lang, entities, alignment, core_result) \<Rightarrow>
      (case core_result of
         Some core \<Rightarrow>
           (let target_lang = or_str (or_opt desired_output_lang resume_lang) (ustr ''en'');
                (preview, s') =
                  (if needs_translation isalpha (preview_markdown core) target_lang
                   then (case translate_markdown llm (preview_markdown core) target_lang s of
                           (Inr translated, s') \<Rightarrow> (translated, s')
                         | (Inl e, s') \<Rightarrow> (preview_markdown core, s'))
                   else (preview_markdown core, s));
                result = \<lparr>score = score core,
                          missing_keywords = missing_keywords core,
                          covered_keywords = covered_keywords core,
                          change_log = change_log core,
                          preview_markdown = preview,
                          detected_resume_lang = None,
                          detected_jd_lang = None,
                          extracted_entities = Some entities,
                          alignment_insights = Some alignment\<rparr>
            in ((result, metrics s'), s'))
       | None \<Rightarrow>
           (let result = \<lparr>score = 0,
                          missing_keywords = [],
                          covered_keywords = [],
                          change_log = [ustr ''Error: Failed to parse LLM response after retries''],
                          preview_markdown = resume_text,
                          detected_resume_lang = None,
                          detected_jd_lang = None,
                          extracted_entities = Some entities,
                          alignment_insights = Some alignment\<rparr>
            in ((result, metrics s), s))))"

definition optimize ::
  "(nat \<Rightarrow> bool) \<Rightarrow> 'w llm_provider \<Rightarrow> ('w \<Rightarrow> real) \<Rightarrow> payload \<Rightarrow> 'w optimizer
     \<Rightarrow> (OptimizationResult \<times> ReliabilityMetrics) \<times> 'w optimizer" where
  "optimize isalpha llm time_time pl s =
     (let (locals, s4) = optimize_stages llm time_time pl s
      in optimize_build isalpha llm locals s4)"


text \<open>\<^verbatim>\<open>ResumeOptimizer.__init__\<close>: fresh metrics, nothing sent yet.\<close>

definition ResumeOptimizer_init :: "'w \<Rightarrow> 'w optimizer" where
  "ResumeOptimizer_init w = \<lparr>world = w, metrics = ReliabilityMetrics_init, calls = []\<rparr>"

section \<open>Backend stubs\<close>

text \<open>
  Test doubles of the backend, for running the pipeline on concrete inputs. Their world is
  the number of requests served so far, which also serves as the clock.
\<close>

definition always_invalid_llm :: "nat llm_provider" where
  "always_invalid_llm =
     \<lparr>generate_response = (\<lambda>req w. (Inl (ValidationError (ustr ''invalid JSON'')), Suc w)),
      get_embedding = (\<lambda>t w. (Inr [], Suc w))\<rparr>"

definition scripted_llm :: "OptimizationResultCore \<Rightarrow> pystr \<Rightarrow> nat llm_provider" where
  "scripted_llm core translation =
     \<lparr>generate_response = (\<lambda>req w.
        (case json_schema req of
           Some ExtractedEntities_schema \<Rightarrow> Inr (Entities empty_entities)
         | Some AlignmentInsights_schema \<Rightarrow> Inr (Alignment empty_alignment)
         | Some OptimizationResultCore_schema \<Rightarrow> Inr (Core core)
         | None \<Rightarrow> Inr (Text translation), Suc w)),
      get_embedding = (\<lambda>t w. (Inr [], Suc w))\<rparr>"

definition payload_empty :: payload where
  "payload_empty = \<lparr>p_job_id = None, p_user_id = None, p_resume_id = None,
     p_resume_version_id = None, p_resume_text = None, p_job_description = None,
     p_instructions = None, p_resume_lang = None, p_resumeLang = None, p_jd_lang = None,
     p_jdLang = None, p_desired_output_lang = None, p_desiredOutputLang = None,
     p_is_refinement = None\<rparr>"

definition example_payload :: "pystr \<Rightarrow> pystr \<Rightarrow> payload" where
  "example_payload resume_lang desired_output_lang =
     payload_empty\<lparr>p_job_id := Some (ustr ''job-1''), p_user_id := Some (ustr ''user-1''),
       p_resume_text := Some (ustr ''Engineer''), p_job_description := Some (ustr ''Developer''),
       p_resume_lang := Some resume_lang, p_jd_lang := Some (ustr ''en''),
       p_desired_output_lang := Some desired_output_lang, p_is_refinement := Some False\<rparr>"

definition example_core :: "pystr \<Rightarrow> OptimizationResultCore" where
  "example_core text = \<lparr>score = 80, missing_keywords = [ustr ''SQL''],
     covered_keywords = [ustr ''Python''], change_log = [ustr ''Added summary''],
     preview_markdown = text\<rparr>"

definition arabic_hello :: pystr where
  "arabic_hello = [0x0645, 0x0631, 0x062D, 0x0628, 0x0627]"


section \<open>The matcher (matcher.py)\<close>

text \<open>
  \<^verbatim>\<open>np.dot\<close> on two one-dimensional arrays raises \<^verbatim>\<open>ValueError\<close> when their lengths
  differ (two empty arrays have the product 0); \<^verbatim>\<open>np.linalg.norm\<close> is the Euclidean norm.
  The text of the exception is not modelled.
\<close>

definition np_dot :: "real list \<Rightarrow> real list \<Rightarrow> exn + real" where
  "np_dot a b =
     (if length a \<noteq> length b then Inl (OtherException (ustr ''ValueError''))
      else Inr (\<Sum>(x, y)\<leftarrow>zip a b. x * y))"

definition np_linalg_norm :: "real list \<Rightarrow> real" where
  "np_linalg_norm a = sqrt (\<Sum>x\<leftarrow>a. x * x)"

definition cosine_similarity :: "real list \<Rightarrow> real list \<Rightarrow> exn + real" where
  "cosine_similarity vec_a vec_b =
     (case np_dot vec_a vec_b of
        Inl e \<Rightarrow> Inl e
      | Inr dot_product \<Rightarrow>
          (let norm_a = np_linalg_norm vec_a;
               norm_b = np_linalg_norm vec_b
           in if norm_a = 0 \<or> norm_b = 0 then Inr 0
              else Inr (dot_product / (norm_a * norm_b))))"

record WEIGHTS_dict =
  skills_weight :: real
  experience_weight :: real
  education_weight :: real

definition WEIGHTS :: WEIGHTS_dict where
  "WEIGHTS = \<lparr>skills_weight = 50 / 100, experience_weight = 30 / 100, education_weight = 20 / 100\<rparr>"

text \<open>
  The dictionary \<^verbatim>\<open>calculate_match_score\<close> returns: the four scores, and either the
  breakdown of the weights or the \<^verbatim>\<open>error\<close> entry.
\<close>

record match_score =
  overall_score :: real
  skills_score :: real
  experience_score :: real
  education_score :: real
  breakdown :: "WEIGHTS_dict option"
  error :: "pystr option"

text \<open>\<^verbatim>\<open>ResumeMatcher.get_embedding\<close>: a blank text and a failing backend give the empty vector.\<close>

definition ResumeMatcher_get_embedding ::
  "'w llm_provider \<Rightarrow> pystr \<Rightarrow> 'w \<Rightarrow> real list \<times> 'w" where
  "ResumeMatcher_get_embedding llm text w =
     (if py_strip text = [] then ([], w)
      else (case get_embedding llm text w of
              (Inr embedding, w') \<Rightarrow> (embedding, w')
            | (Inl e, w') \<Rightarrow> ([], w')))"

text \<open>
  The block that \<^verbatim>\<open>calculate_match_score\<close> writes out three times, for the skills, the
  experience and the education text: the similarity of the section to the job
  description, 0 for an empty text and for an empty embedding. The \<^verbatim>\<open>ValueError\<close> of
  \<open>cosine_similarity\<close> is not caught.
\<close>

definition section_score ::
  "'w llm_provider \<Rightarrow> real list \<Rightarrow> pystr \<Rightarrow> 'w \<Rightarrow> (exn + real) \<times> 'w" where
  "section_score llm job_embedding section_text w =
     (if section_text \<noteq> []
      then (let (section_embedding, w') = ResumeMatcher_get_embedding llm section_text w
            in (if section_embedding \<noteq> []
                then cosine_similarity job_embedding section_embedding
                else Inr 0, w'))
      else (Inr 0, w))"

definition calculate_match_score ::
  "'w llm_provider \<Rightarrow> pystr list \<Rightarrow> pystr list \<Rightarrow> pystr list \<Rightarrow> pystr \<Rightarrow> 'w
     \<Rightarrow> (exn + match_score) \<times> 'w" where
  "calculate_match_score llm resume_skills resume_experience resume_education job_description w =
     (let skills_text = (if resume_skills \<noteq> [] then py_join (ustr '', '') resume_skills else []);
          experience_text =
            (if resume_experience \<noteq> [] then py_join (ustr '' | '') resume_experience else []);
          education_text =
            (if resume_education \<noteq> [] then py_join (ustr '', '') resume_education else []);
          (job_embedding, w0) = ResumeMatcher_get_embedding llm job_description w
      in if job_embedding = []
         then (Inr \<lparr>overall_score = 0, skills_score = 0, experience_score = 0,
                    education_score = 0, breakdown = None,
                    error = Some (ustr ''Failed to compute embeddings'')\<rparr>, w0)
         else
           (case section_score llm job_embedding skills_text w0 of
              (Inl e, w1) \<Rightarrow> (Inl e, w1)
            | (Inr scores_skills, w1) \<Rightarrow>
           (case section_score llm job_embedding experience_text w1 of
              (Inl e, w2) \<Rightarrow> (Inl e, w2)
            | (Inr scores_experience, w2) \<Rightarrow>
           (case section_score llm job_embedding education_text w2 of
              (Inl e, w3) \<Rightarrow> (Inl e, w3)
            | (Inr scores_education, w3) \<Rightarrow>
           (let overall = 0 + scores_skills * skills_weight WEIGHTS * 100
                            + scores_experience * experience_weight WEIGHTS * 100
                            + scores_education * education_weight WEIGHTS * 100
            in (Inr \<lparr>overall_score = py_round overall 1,
                      skills_score = py_round (scores_skills * 100) 1,
                      experience_score = py_round (scores_experience * 100) 1,
                      education_score = py_round (scores_education * 100) 1,
                      breakdown = Some WEIGHTS, error = None\<rparr>, w3))))))"

text \<open>
  A candidate is a dictionary read with \<^verbatim>\<open>get\<close>: a field is \<open>None\<close> when the key is absent.
  A ranked entry is the score dictionary with the candidate's id and name added.
\<close>

record candidate =
  candidate_id :: "pystr option"
  candidate_name :: "pystr option"
  candidate_skills :: "pystr list option"
  candidate_experience :: "pystr list option"
  candidate_education :: "pystr list option"

record ranked_entry = match_score +
  entry_id :: "pystr option"
  entry_name :: pystr

definition make_entry :: "candidate \<Rightarrow> match_score \<Rightarrow> ranked_entry" where
  "make_entry c score_data =
     \<lparr>overall_score = overall_score score_data, skills_score = skills_score score_data,
      experience_score = experience_score score_data,
      education_score = education_score score_data,
      breakdown = breakdown score_data, error = error score_data,
      entry_id = candidate_id c,
      entry_name = (case candidate_name c of None \<Rightarrow> ustr ''Unknown'' | Some n \<Rightarrow> n)\<rparr>"

text \<open>
  The loop of \<^verbatim>\<open>rank_candidates\<close>: one score per candidate, appended in the order of the
  input; an exception of the scoring leaves the loop.
\<close>

fun rank_loop ::
  "'w llm_provider \<Rightarrow> pystr \<Rightarrow> candidate list \<Rightarrow> 'w \<Rightarrow> (exn + ranked_entry list) \<times> 'w" where
  "rank_loop llm job_description [] w = (Inr [], w)"
| "rank_loop llm job_description (c # cs) w =
     (case calculate_match_score llm
             (case candidate_skills c of None \<Rightarrow> [] | Some v \<Rightarrow> v)
             (case candidate_experience c of None \<Rightarrow> [] | Some v \<Rightarrow> v)
             (case candidate_education c of None \<Rightarrow> [] | Some v \<Rightarrow> v)
             job_description w of
        (Inl e, w') \<Rightarrow> (Inl e, w')
      | (Inr score_data, w') \<Rightarrow>
          (case rank_loop llm job_description cs w' of
             (Inl e, w'') \<Rightarrow> (Inl e, w'')
           | (Inr results, w'') \<Rightarrow> (Inr (make_entry c score_data # results), w'')))"

text \<open>
  \<^verbatim>\<open>list.sort(key=..., reverse=True)\<close> is a stable sort into descending order of the key:
  elements of equal key keep their order. That is the stable ascending sort by the
  negated key.
\<close>

definition sort_reverse :: "('a \<Rightarrow> real) \<Rightarrow> 'a list \<Rightarrow> 'a list" where
  "sort_reverse key xs = sort_key (\<lambda>x. - key x) xs"

definition rank_candidates ::
  "'w llm_provider \<Rightarrow> candidate list \<Rightarrow> pystr \<Rightarrow> 'w \<Rightarrow> (exn + ranked_entry list) \<times> 'w" where
  "rank_candidates llm candidates job_description w =
     (case rank_loop llm job_description candidates w of
        (Inl e, w') \<Rightarrow> (Inl e, w')
      | (Inr results, w') \<Rightarrow> (Inr (sort_reverse overall_score results), w'))"

text \<open>
  An embedding stub that looks the text up in a table and has an empty embedding for
  every other text.
\<close>

definition table_embedder :: "(pystr \<times> real list) list \<Rightarrow> nat llm_provider" where
  "table_embedder table =
     \<lparr>generate_response = (\<lambda>req w. (Inr (Text []), Suc w)),
      get_embedding = (\<lambda>t w. (case map_of table t of None \<Rightarrow> Inr [] | Some v \<Rightarrow> Inr v, Suc w))\<rparr>"

section \<open>The similarity of the specification, and examples for the matcher\<close>

text \<open>
  The similarity as the specification words it: the dot product divided by the product of
  the two norms, and 0 when either vector is empty or has norm zero.
\<close>

definition spec_similarity :: "real list \<Rightarrow> real list \<Rightarrow> real" where
  "spec_similarity a b =
     (if a = [] \<or> b = [] \<or> np_linalg_norm a = 0 \<or> np_linalg_norm b = 0 then 0
      else (\<Sum>(x, y)\<leftarrow>zip a b. x * y) / (np_linalg_norm a * np_linalg_norm b))"

text \<open>
  What \<^verbatim>\<open>ResumeMatcher.get_embedding\<close> yields for a text when the backend's answer is the
  function \<open>emb\<close> of the text alone.
\<close>

definition embedding_of :: "(pystr \<Rightarrow> exn + real list) \<Rightarrow> pystr \<Rightarrow> real list" where
  "embedding_of emb text =
     (if py_strip text = [] then []
      else (case emb text of Inr v \<Rightarrow> v | Inl e \<Rightarrow> []))"

text \<open>A table of two-dimensional embeddings, and three candidates, for running examples.\<close>

definition example_table :: "(pystr \<times> real list) list" where
  "example_table =
     [(ustr ''dev'', [3, 4]), (ustr ''py, sql'', [3, 4]), (ustr ''a | b'', [4, - 3]),
      (ustr ''bsc'', [0, 5]), (ustr ''py'', [3, 4])]"

definition table_lookup :: "(pystr \<times> real list) list \<Rightarrow> pystr \<Rightarrow> exn + real list" where
  "table_lookup table t = (case map_of table t of None \<Rightarrow> Inr [] | Some v \<Rightarrow> Inr v)"

definition example_candidate :: "string \<Rightarrow> pystr list \<Rightarrow> pystr list \<Rightarrow> candidate" where
  "example_candidate ident skills_list experience_list =
     \<lparr>candidate_id = Some (ustr ident), candidate_name = None,
      candidate_skills = Some skills_list, candidate_experience = Some experience_list,
      candidate_education = None\<rparr>"

definition example_candidates :: "candidate list" where
  "example_candidates =
     [example_candidate ''a'' [ustr ''py''] [],
      example_candidate ''b'' [ustr ''py''] [ustr ''dev''],
      example_candidate ''c'' [ustr ''py''] []]"


section \<open>The task queue and the worker (db/models.py, db/repo.py, worker.py)\<close>

datatype TaskTypeEnum = task_optimize | task_embed_resume | task_embed_job

datatype TaskStatusEnum = task_queued | task_processing | task_complete | task_failed

datatype JobStatusEnum = job_queued | job_processing | job_complete | job_failed

text \<open>
  A row of \<^verbatim>\<open>task_queue\<close>. Time stamps are reals; ids are the strings of the UUIDs.
\<close>

record TaskQueue =
  tq_id :: pystr
  tq_task_type :: TaskTypeEnum
  tq_payload :: payload
  tq_status :: TaskStatusEnum
  tq_attempts :: int
  tq_last_error :: "pystr option"
  tq_created_at :: real
  tq_updated_at :: real

text \<open>
  Of a row of \<^verbatim>\<open>jobs\<close> the worker reads the id and writes the status (and with it
  \<^verbatim>\<open>updated_at\<close>); the other columns are left out. A row of \<^verbatim>\<open>optimizations\<close> holds what
  \<^verbatim>\<open>create_optimization\<close> is given; \<open>opt_report_json\<close> is the dumped result together with
  the metrics stored under \<^verbatim>\<open>reliability\<close>.
\<close>

record Job =
  job_id :: pystr
  job_status :: JobStatusEnum
  job_updated_at :: real

record Optimization =
  opt_user_id :: pystr
  opt_resume_id :: "pystr option"
  opt_resume_version_id :: "pystr option"
  opt_job_id :: pystr
  opt_score :: int
  opt_report_json :: "OptimizationResult \<times> ReliabilityMetrics"
  opt_preview_md :: pystr
  opt_change_log :: "pystr list"

text \<open>
  The committed content of the tables the worker touches; of \<^verbatim>\<open>resumes\<close> and
  \<^verbatim>\<open>resume_versions\<close> only the ids, which the foreign keys of an optimization refer to.
\<close>

record database =
  task_queue :: "TaskQueue list"
  jobs :: "Job list"
  optimizations :: "Optimization list"
  resumes :: "pystr list"
  resume_versions :: "pystr list"

text \<open>
  \<^verbatim>\<open>Repository.enqueue_task\<close>: a new row with the server defaults (status \<^verbatim>\<open>queued\<close>, no
  attempts, the current time). \<open>new_id\<close> is the UUID the server generates.
\<close>

definition enqueue_task ::
  "pystr \<Rightarrow> real \<Rightarrow> TaskTypeEnum \<Rightarrow> payload \<Rightarrow> database \<Rightarrow> pystr \<times> database" where
  "enqueue_task new_id now task_type pl db =
     (new_id, db\<lparr>task_queue := task_queue db @
        [\<lparr>tq_id = new_id, tq_task_type = task_type, tq_payload = pl, tq_status = task_queued,
          tq_attempts = 0, tq_last_error = None, tq_created_at = now, tq_updated_at = now\<rparr>]\<rparr>)"

text \<open>
  The query of the polling loop: the rows that are \<^verbatim>\<open>queued\<close> and of type \<^verbatim>\<open>optimize\<close>,
  ordered by \<^verbatim>\<open>created_at\<close>, limited to one. Among rows of equal \<^verbatim>\<open>created_at\<close> SQL leaves
  the choice open; \<open>oldest\<close> takes the first of them in table order.
\<close>

definition queued_optimize :: "database \<Rightarrow> TaskQueue list" where
  "queued_optimize db =
     filter (\<lambda>r. tq_status r = task_queued \<and> tq_task_type r = task_optimize) (task_queue db)"

fun oldest :: "TaskQueue list \<Rightarrow> TaskQueue option" where
  "oldest [] = None"
| "oldest (r # rs) =
     (case oldest rs of
        None \<Rightarrow> Some r
      | Some r' \<Rightarrow> if tq_created_at r \<le> tq_created_at r' then Some r else Some r')"

text \<open>The dictionary \<^verbatim>\<open>task\<close> that the loop hands to \<^verbatim>\<open>process_task\<close>.\<close>

record task =
  task_id :: pystr
  task_payload :: payload
  task_attempts :: int

text \<open>
  The claim step of \<^verbatim>\<open>run_worker\<close>: the \<^verbatim>\<open>task\<close> dictionary is read off the row first, so it
  carries the number of attempts before this one; then the row, found by its primary key,
  is marked \<^verbatim>\<open>processing\<close>, its attempts are incremented, and the change is committed.
\<close>

definition claim_next :: "real \<Rightarrow> database \<Rightarrow> task option \<times> database" where
  "claim_next now db =
     (case oldest (queued_optimize db) of
        None \<Rightarrow> (None, db)
      | Some task_row \<Rightarrow>
          (Some \<lparr>task_id = tq_id task_row, task_payload = tq_payload task_row,
                 task_attempts = tq_attempts task_row\<rparr>,
           db\<lparr>task_queue :=
                map (\<lambda>r. if tq_id r = tq_id task_row
                          then r\<lparr>tq_status := task_processing,
                                 tq_attempts := tq_attempts r + 1,
                                 tq_updated_at := now\<rparr>
                          else r)
                    (task_queue db)\<rparr>))"

text \<open>
  \<^verbatim>\<open>Repository.create_optimization\<close>: the insert is flushed, so the foreign keys of the row
  (\<^verbatim>\<open>job_id\<close>, and \<^verbatim>\<open>resume_id\<close> and \<^verbatim>\<open>resume_version_id\<close> when given) are checked; a
  violation raises. The text of that exception is not modelled.
\<close>

definition create_optimization :: "Optimization \<Rightarrow> database \<Rightarrow> exn + database" where
  "create_optimization opt db =
     (if opt_job_id opt \<in> job_id ` set (jobs db)
         \<and> (case opt_resume_id opt of None \<Rightarrow> True | Some r \<Rightarrow> r \<in> set (resumes db))
         \<and> (case opt_resume_version_id opt of None \<Rightarrow> True
             | Some v \<Rightarrow> v \<in> set (resume_versions db))
      then Inr (db\<lparr>optimizations := optimizations db @ [opt]\<rparr>)
      else Inl (OtherException (ustr ''IntegrityError'')))"

definition update_job_status :: "pystr \<Rightarrow> JobStatusEnum \<Rightarrow> real \<Rightarrow> database \<Rightarrow> database" where
  "update_job_status ident status now db =
     db\<lparr>jobs := map (\<lambda>j. if job_id j = ident
                            then j\<lparr>job_status := status, job_updated_at := now\<rparr> else j)
                   (jobs db)\<rparr>"

text \<open>\<^verbatim>\<open>str(e)\<close> of the exceptions of the model.\<close>

fun str_exn :: "exn \<Rightarrow> pystr" where
  "str_exn (ValidationError msg) = msg"
| "str_exn (OtherException msg) = msg"

text \<open>
  The body of the \<^verbatim>\<open>try\<close> of \<^verbatim>\<open>process_task\<close> after the pipeline has returned: the two
  ids are read from the payload (a missing key raises \<^verbatim>\<open>KeyError\<close>, whose string is the
  quoted key), the optimization is stored, the job is set to \<^verbatim>\<open>complete\<close>, and all of it is
  committed. Nothing here writes to the task row.
\<close>

definition persist_result ::
  "real \<Rightarrow> payload \<Rightarrow> OptimizationResult \<Rightarrow> ReliabilityMetrics \<Rightarrow> database \<Rightarrow> exn + database" where
  "persist_result now pl result m db =
     (case p_job_id pl of
        None \<Rightarrow> Inl (OtherException ([0x27] @ ustr ''job_id'' @ [0x27]))
      | Some job_ident \<Rightarrow>
     (case p_user_id pl of
        None \<Rightarrow> Inl (OtherException ([0x27] @ ustr ''user_id'' @ [0x27]))
      | Some user_ident \<Rightarrow>
     (case create_optimization
             \<lparr>opt_user_id = user_ident,
              opt_resume_id = or_opt (p_resume_id pl) None,
              opt_resume_version_id = or_opt (p_resume_version_id pl) None,
              opt_job_id = job_ident,
              opt_score = score result,
              opt_report_json = (result, m),
              opt_preview_md = preview_markdown result,
              opt_change_log = change_log result\<rparr> db of
        Inl e \<Rightarrow> Inl e
      | Inr db' \<Rightarrow> Inr (update_job_status job_ident job_complete now db'))))"

text \<open>
  The \<^verbatim>\<open>except\<close> branch of \<^verbatim>\<open>process_task\<close>, after the rollback: the task row, if there is
  one of that id, is marked \<^verbatim>\<open>failed\<close> with the text of the exception.
\<close>

definition mark_failed :: "real \<Rightarrow> pystr \<Rightarrow> exn \<Rightarrow> database \<Rightarrow> database" where
  "mark_failed now ident e db =
     db\<lparr>task_queue :=
          map (\<lambda>r. if tq_id r = ident
                    then r\<lparr>tq_status := task_failed, tq_last_error := Some (str_exn e),
                           tq_updated_at := now\<rparr>
                    else r)
              (task_queue db)\<rparr>"

text \<open>
  \<^verbatim>\<open>process_task\<close>. When the \<^verbatim>\<open>try\<close> body raises, its writes are rolled back: the \<^verbatim>\<open>except\<close>
  branch starts from the database as it was.
\<close>

definition process_task ::
  "(nat \<Rightarrow> bool) \<Rightarrow> 'w llm_provider \<Rightarrow> ('w \<Rightarrow> real) \<Rightarrow> real \<Rightarrow> task \<Rightarrow> 'w optimizer
     \<Rightarrow> database \<Rightarrow> 'w optimizer \<times> database" where
  "process_task isalpha llm time_time now t optimizer db =
     (let ((result, m), optimizer') = optimize isalpha llm time_time (task_payload t) optimizer
      in case persist_result now (task_payload t) result m db of
           Inr db' \<Rightarrow> (optimizer', db')
         | Inl e \<Rightarrow> (optimizer', mark_failed now (task_id t) e db))"

text \<open>
  One round of the loop of \<^verbatim>\<open>run_worker\<close>: claim a task and process it, or find none (and
  sleep). It returns the task claimed, if any.
\<close>

definition worker_cycle ::
  "(nat \<Rightarrow> bool) \<Rightarrow> 'w llm_provider \<Rightarrow> ('w \<Rightarrow> real) \<Rightarrow> real \<Rightarrow> 'w optimizer \<Rightarrow> database
     \<Rightarrow> task option \<times> 'w optimizer \<times> database" where
  "worker_cycle isalpha llm time_time now optimizer db =
     (case claim_next now db of
        (None, db') \<Rightarrow> (None, optimizer, db')
      | (Some t, db') \<Rightarrow>
          (let (optimizer', db'') = process_task isalpha llm time_time now t optimizer db'
           in (Some t, optimizer', db'')))"

text \<open>A database with one job and one queued task for it, for running the worker.\<close>

definition example_database :: database where
  "example_database =
     snd (enqueue_task (ustr ''task-1'') 10 task_optimize
            (example_payload (ustr ''en'') (ustr ''en''))
            \<lparr>task_queue = [],
             jobs = [\<lparr>job_id = ustr ''job-1'', job_status = job_queued, job_updated_at = 10\<rparr>],
             optimizations = [], resumes = [], resume_versions = []\<rparr>)"

text \<open>
  Three tasks enqueued out of the order of their time stamps, and the row that
  \<open>enqueue_task\<close> writes for an id and a time.
\<close>

definition example_queue :: database where
  "example_queue =
     snd (enqueue_task (ustr ''t3'') 30 task_optimize (example_payload (ustr ''en'') (ustr ''en''))
       (snd (enqueue_task (ustr ''t1'') 10 task_optimize (example_payload (ustr ''en'') (ustr ''en''))
         (snd (enqueue_task (ustr ''t2'') 20 task_optimize
            (example_payload (ustr ''en'') (ustr ''en''))
            \<lparr>task_queue = [],
             jobs = [\<lparr>job_id = ustr ''job-1'', job_status = job_queued, job_updated_at = 5\<rparr>],
             optimizations = [], resumes = [], resume_versions = []\<rparr>)))))"

definition example_row :: "string \<Rightarrow> real \<Rightarrow> TaskQueue" where
  "example_row ident created =
     \<lparr>tq_id = ustr ident, tq_task_type = task_optimize,
      tq_payload = example_payload (ustr ''en'') (ustr ''en''), tq_status = task_queued,
      tq_attempts = 0, tq_last_error = None, tq_created_at = created, tq_updated_at = created\<rparr>"

section \<open>Properties of the optimizer\<close>

subsection \<open>String literals\<close>

lemma ustr_eq_Nil [simp]: "ustr s = [] \<longleftrightarrow> s = []"
  by (simp add: ustr_def)

lemma ustr_eq_iff [simp]: "ustr s = ustr t \<longleftrightarrow> s = t"
  by (simp add: ustr_def inj_of_char)

lemma Nil_eq_ustr [simp]: "[] = ustr s \<longleftrightarrow> s = []"
  by (auto simp add: ustr_def)

subsection \<open>Running the stubs\<close>

text \<open>The equations that run the pipeline on a concrete input.\<close>

lemmas run_defs = optimize_def optimize_stages_def optimize_build_def extract_entities_def
  analyze_alignment_def MAX_RETRIES_def numeral_3_eq_3 llm_generate_def count_invalid_def
  count_attempt_def ResumeOptimizer_init_def ReliabilityMetrics_init_def translate_markdown_def
  Let_def example_payload_def payload_empty_def

text \<open>The three generation stages against the two stubs, evaluated once.\<close>

lemma scripted_stages:
  assumes "rl \<noteq> []" "dl \<noteq> []"
  shows "optimize_stages (scripted_llm c t) real (example_payload rl dl) (ResumeOptimizer_init 0)
    = ((ustr ''Engineer'', Some rl, Some dl, empty_entities, empty_alignment, Some c),
       \<lparr>world = 3,
        metrics = \<lparr>invalid_json_attempts = 0, total_attempts = 1,
                   latency_seconds = py_round 3 2, last_run_valid = True\<rparr>,
        calls = [\<lparr>system_prompt = extract_system_prompt, user_prompt = ustr ''Engineer'',
                   json_schema = Some ExtractedEntities_schema, temperature = 3 / 10\<rparr>,
                 \<lparr>system_prompt = alignment_system_prompt,
                   user_prompt = alignment_user_prompt empty_entities (ustr ''Developer''),
                   json_schema = Some AlignmentInsights_schema, temperature = 3 / 10\<rparr>,
                 \<lparr>system_prompt = optimize_system_prompt
                     (build_language_instructions (Some rl) (Some (ustr ''en'')) (Some dl)),
                   user_prompt = optimize_user_prompt (ustr ''Engineer'') (ustr ''Developer'') None,
                   json_schema = Some OptimizationResultCore_schema, temperature = 5 / 10\<rparr>]\<rparr>)"
  using assms by (simp add: run_defs scripted_llm_def or_opt_def)

lemma invalid_stages:
  "optimize_stages always_invalid_llm real (example_payload (ustr ''en'') (ustr ''en''))
     (ResumeOptimizer_init 0)
    = ((ustr ''Engineer'', Some (ustr ''en''), Some (ustr ''en''), empty_entities, empty_alignment, None),
       \<lparr>world = 9,
        metrics = \<lparr>invalid_json_attempts = 9, total_attempts = 3,
                   latency_seconds = py_round 9 2, last_run_valid = False\<rparr>,
        calls = replicate 3 \<lparr>system_prompt = extract_system_prompt, user_prompt = ustr ''Engineer'',
                   json_schema = Some ExtractedEntities_schema, temperature = 3 / 10\<rparr>
              @ replicate 3 \<lparr>system_prompt = alignment_system_prompt,
                   user_prompt = alignment_user_prompt empty_entities (ustr ''Developer''),
                   json_schema = Some AlignmentInsights_schema, temperature = 3 / 10\<rparr>
              @ replicate 3 \<lparr>system_prompt = optimize_system_prompt
                     (build_language_instructions (Some (ustr ''en'')) (Some (ustr ''en''))
                        (Some (ustr ''en''))),
                   user_prompt = optimize_user_prompt (ustr ''Engineer'') (ustr ''Developer'') None,
                   json_schema = Some OptimizationResultCore_schema, temperature = 5 / 10\<rparr>\<rparr>)"
  by (simp add: run_defs always_invalid_llm_def or_opt_def)

subsection \<open>One generation call\<close>

lemma llm_generate_calls: "calls (snd (llm_generate llm req s)) = calls s @ [req]"
  by (simp add: llm_generate_def split: prod.splits)

lemma llm_generate_metrics: "metrics (snd (llm_generate llm req s)) = metrics s"
  by (simp add: llm_generate_def split: prod.splits)

lemma llm_generate_fst: "fst (llm_generate llm req s) = fst (generate_response llm req (world s))"
  by (simp add: llm_generate_def split: prod.splits)

subsection \<open>Entity extraction against a backend that always raises\<close>

lemma extract_loop_raise_fst:
  assumes "\<forall>req w. \<exists>e. fst (generate_response llm req w) = Inl e"
  shows "fst (extract_entities_loop llm req n s) = empty_entities"
proof (induction n arbitrary: s)
  case 0
  show ?case by simp
next
  case (Suc n)
  obtain e where e: "fst (generate_response llm req (world s)) = Inl e"
    using assms by blast
  obtain r s' where rs: "llm_generate llm req s = (r, s')" by (cases "llm_generate llm req s")
  have "r = Inl e" using e rs llm_generate_fst [of llm req s] by simp
  then show ?case using rs Suc.IH by simp
qed

lemma extract_loop_raise_calls:
  assumes "\<forall>req w. \<exists>e. fst (generate_response llm req w) = Inl e"
  shows "calls (snd (extract_entities_loop llm req n s)) = calls s @ replicate n req"
proof (induction n arbitrary: s)
  case 0
  show ?case by simp
next
  case (Suc n)
  obtain e where e: "fst (generate_response llm req (world s)) = Inl e"
    using assms by blast
  obtain r s' where rs: "llm_generate llm req s = (r, s')" by (cases "llm_generate llm req s")
  have r: "r = Inl e" using e rs llm_generate_fst [of llm req s] by simp
  have "calls s' = calls s @ [req]" using rs llm_generate_calls [of llm req s] by simp
  then show ?case using rs r Suc.IH [of "count_invalid s'"]
    by (simp add: count_invalid_def replicate_app_Cons_same)
qed

lemma extract_loop_raise_metrics:
  assumes "\<forall>req w. \<exists>e. fst (generate_response llm req w) = Inl e"
  shows "metrics (snd (extract_entities_loop llm req n s))
         = (metrics s)\<lparr>invalid_json_attempts := invalid_json_attempts (metrics s) + int n\<rparr>"
proof (induction n arbitrary: s)
  case 0
  show ?case by simp
next
  case (Suc n)
  obtain e where e: "fst (generate_response llm req (world s)) = Inl e"
    using assms by blast
  obtain r s' where rs: "llm_generate llm req s = (r, s')" by (cases "llm_generate llm req s")
  have r: "r = Inl e" using e rs llm_generate_fst [of llm req s] by simp
  have "metrics s' = metrics s" using rs llm_generate_metrics [of llm req s] by simp
  then show ?case using rs r Suc.IH [of "count_invalid s'"]
    by (simp add: count_invalid_def)
qed

text \<open>
  Claim C6. When every call of the backend raises a schema-validation error,
  \<open>extract_entities\<close> returns the all-empty entity structure (no error leaves it), it has
  sent exactly three requests, and it has added three to \<open>invalid_json_attempts\<close>, which
  is therefore 3 on a fresh optimizer.
\<close>

theorem extract_entities_all_invalid:
  assumes "\<forall>req w. \<exists>msg. fst (generate_response llm req w) = Inl (ValidationError msg)"
  shows "fst (extract_entities llm resume_text s) = empty_entities
       \<and> length (calls (snd (extract_entities llm resume_text s))) = length (calls s) + 3
       \<and> invalid_json_attempts (metrics (snd (extract_entities llm resume_text s)))
           = invalid_json_attempts (metrics s) + 3
       \<and> invalid_json_attempts
           (metrics (snd (extract_entities llm resume_text (ResumeOptimizer_init w)))) = 3"
proof -
  have a: "\<forall>req w. \<exists>e. fst (generate_response llm req w) = Inl e"
    using assms by blast
  show ?thesis
    unfolding extract_entities_def MAX_RETRIES_def
    by (simp add: extract_loop_raise_fst [OF a] extract_loop_raise_calls [OF a]
        extract_loop_raise_metrics [OF a] ResumeOptimizer_init_def ReliabilityMetrics_init_def)
qed

theorem extract_entities_all_invalid_witness:
  "(\<forall>req w. \<exists>msg. fst (generate_response always_invalid_llm req w) = Inl (ValidationError msg))
   \<and> fst (extract_entities always_invalid_llm (ustr ''cv'') (ResumeOptimizer_init 0))
       = \<lparr>skills = [], tools = [], education = [], experience = [], contact = None\<rparr>
   \<and> length (calls (snd (extract_entities always_invalid_llm (ustr ''cv'')
        (ResumeOptimizer_init 0)))) = 3
   \<and> invalid_json_attempts (metrics (snd (extract_entities always_invalid_llm (ustr ''cv'')
        (ResumeOptimizer_init 0)))) = 3"
proof -
  have h: "\<forall>req w. \<exists>msg.
      fst (generate_response always_invalid_llm req w) = Inl (ValidationError msg)"
    by (simp add: always_invalid_llm_def)
  show ?thesis
    using h extract_entities_all_invalid [OF h, of "ustr ''cv''" "ResumeOptimizer_init 0" 0]
    by (simp add: ResumeOptimizer_init_def empty_entities_def)
qed

subsection \<open>The stages and the requests they send\<close>

lemma count_invalid_calls [simp]: "calls (count_invalid s) = calls s"
  by (simp add: count_invalid_def)

lemma count_attempt_calls [simp]: "calls (count_attempt s) = calls s"
  by (simp add: count_attempt_def)

lemma extract_loop_calls:
  "\<exists>k\<le>n. calls (snd (extract_entities_loop llm req n s)) = calls s @ replicate k req"
proof (induction n arbitrary: s)
  case 0
  show ?case by simp
next
  case (Suc n)
  obtain r s' where rs: "llm_generate llm req s = (r, s')" by (cases "llm_generate llm req s")
  have c: "calls s' = calls s @ [req]" using rs llm_generate_calls [of llm req s] by simp
  show ?case
  proof (cases r)
    case (Inl e)
    obtain k where "k \<le> n" "calls (snd (extract_entities_loop llm req n (count_invalid s')))
        = calls (count_invalid s') @ replicate k req"
      using Suc.IH by blast
    then show ?thesis using rs Inl c by (intro exI [of _ "Suc k"]) simp
  next
    case (Inr v)
    obtain k where k: "k \<le> n" "calls (snd (extract_entities_loop llm req n s'))
        = calls s' @ replicate k req"
      using Suc.IH by blast
    show ?thesis
    proof (cases v)
      case (Entities x)
      then show ?thesis using rs Inr c by (intro exI [of _ "Suc 0"]) simp
    qed (use rs Inr c k in \<open>(intro exI [of _ "Suc k"], simp)+\<close>)
  qed
qed

lemma analyze_loop_calls:
  "\<exists>k\<le>n. calls (snd (analyze_alignment_loop llm req n s)) = calls s @ replicate k req"
proof (induction n arbitrary: s)
  case 0
  show ?case by simp
next
  case (Suc n)
  obtain r s' where rs: "llm_generate llm req s = (r, s')" by (cases "llm_generate llm req s")
  have c: "calls s' = calls s @ [req]" using rs llm_generate_calls [of llm req s] by simp
  show ?case
  proof (cases r)
    case (Inl e)
    obtain k where "k \<le> n" "calls (snd (analyze_alignment_loop llm req n (count_invalid s')))
        = calls (count_invalid s') @ replicate k req"
      using Suc.IH by blast
    then show ?thesis using rs Inl c by (intro exI [of _ "Suc k"]) simp
  next
    case (Inr v)
    obtain k where k: "k \<le> n" "calls (snd (analyze_alignment_loop llm req n s'))
        = calls s' @ replicate k req"
      using Suc.IH by blast
    show ?thesis
    proof (cases v)
      case (Alignment x)
      then show ?thesis using rs Inr c by (intro exI [of _ "Suc 0"]) simp
    qed (use rs Inr c k in \<open>(intro exI [of _ "Suc k"], simp)+\<close>)
  qed
qed

lemma optimize_loop_calls:
  "\<exists>k\<le>n. calls (snd (optimize_loop llm req n s)) = calls s @ replicate k req"
proof (induction n arbitrary: s)
  case 0
  show ?case by simp
next
  case (Suc n)
  obtain r s' where rs: "llm_generate llm req (count_attempt s) = (r, s')"
    by (cases "llm_generate llm req (count_attempt s)")
  have c: "calls s' = calls s @ [req]"
    using rs llm_generate_calls [of llm req "count_attempt s"] by simp
  show ?case
  proof (cases r)
    case (Inl e)
    obtain k where "k \<le> n" "calls (snd (optimize_loop llm req n (count_invalid s')))
        = calls (count_invalid s') @ replicate k req"
      using Suc.IH by blast
    then show ?thesis using rs Inl c by (intro exI [of _ "Suc k"]) simp
  next
    case (Inr v)
    obtain k where k: "k \<le> n" "calls (snd (optimize_loop llm req n s'))
        = calls s' @ replicate k req"
      using Suc.IH by blast
    show ?thesis
    proof (cases v)
      case (Core x)
      then show ?thesis using rs Inr c by (intro exI [of _ "Suc 0"]) simp
    qed (use rs Inr c k in \<open>(intro exI [of _ "Suc k"], simp)+\<close>)
  qed
qed

lemma optimize_loop_no_core:
  assumes "\<forall>w c. fst (generate_response llm req w) \<noteq> Inr (Core c)"
  shows "fst (optimize_loop llm req n s) = None"
proof (induction n arbitrary: s)
  case 0
  show ?case by simp
next
  case (Suc n)
  obtain r s' where rs: "llm_generate llm req (count_attempt s) = (r, s')"
    by (cases "llm_generate llm req (count_attempt s)")
  have r: "\<forall>c. r \<noteq> Inr (Core c)"
    using assms rs llm_generate_fst [of llm req "count_attempt s"] by simp
  show ?case
  proof (cases r)
    case (Inl e)
    then show ?thesis using rs Suc.IH by simp
  next
    case (Inr v)
    then show ?thesis using rs r Suc.IH by (cases v) simp_all
  qed
qed

text \<open>
  Claim C4. Take a backend that never answers a rewrite request (one whose schema is
  \<^verbatim>\<open>OptimizationResultCore\<close>) with an \<^verbatim>\<open>OptimizationResultCore\<close>: it raises, or it returns
  something else, on every attempt. Then for every payload and every optimizer state
  \<open>optimize\<close> returns a result with score 0, empty keyword lists, the one change-log
  entry that records the failure and the input resume text as preview, and metrics whose
  \<open>last_run_valid\<close> is false. \<open>optimize\<close> is total: it has no error outcome.
\<close>

theorem optimize_rewrite_exhausted:
  assumes "\<forall>req w c. json_schema req = Some OptimizationResultCore_schema
             \<longrightarrow> fst (generate_response llm req w) \<noteq> Inr (Core c)"
  shows "score (fst (fst (optimize isalpha llm time_time pl s))) = 0
       \<and> missing_keywords (fst (fst (optimize isalpha llm time_time pl s))) = []
       \<and> covered_keywords (fst (fst (optimize isalpha llm time_time pl s))) = []
       \<and> change_log (fst (fst (optimize isalpha llm time_time pl s)))
           = [ustr ''Error: Failed to parse LLM response after retries'']
       \<and> preview_markdown (fst (fst (optimize isalpha llm time_time pl s)))
           = (case p_resume_text pl of None \<Rightarrow> [] | Some resume_text \<Rightarrow> resume_text)
       \<and> \<not> last_run_valid (snd (fst (optimize isalpha llm time_time pl s)))"
proof -
  let ?rt = "case p_resume_text pl of None \<Rightarrow> [] | Some v \<Rightarrow> v"
  let ?jd = "case p_job_description pl of None \<Rightarrow> [] | Some v \<Rightarrow> v"
  let ?s0 = "s\<lparr>metrics := ReliabilityMetrics_init\<rparr>"
  obtain entities s1 where e: "extract_entities llm ?rt ?s0 = (entities, s1)"
    by (cases "extract_entities llm ?rt ?s0")
  obtain alignment s2 where a: "analyze_alignment llm ?rt ?jd entities s1 = (alignment, s2)"
    by (cases "analyze_alignment llm ?rt ?jd entities s1")
  define req where "req = \<lparr>system_prompt = optimize_system_prompt
       (build_language_instructions (or_opt (p_resume_lang pl) (p_resumeLang pl))
          (or_opt (p_jd_lang pl) (p_jdLang pl))
          (or_opt (p_desired_output_lang pl) (p_desiredOutputLang pl))),
     user_prompt = optimize_user_prompt ?rt ?jd (p_instructions pl),
     json_schema = Some OptimizationResultCore_schema, temperature = 5 / 10\<rparr>"
  obtain core s3 where c: "optimize_loop llm req MAX_RETRIES s2 = (core, s3)"
    by (cases "optimize_loop llm req MAX_RETRIES s2")
  have "\<forall>w c. fst (generate_response llm req w) \<noteq> Inr (Core c)"
    using assms by (simp add: req_def)
  then have "core = None"
    using optimize_loop_no_core [of llm req MAX_RETRIES s2] c by simp
  then show ?thesis
    using e a c unfolding req_def
    by (simp add: optimize_def optimize_stages_def optimize_build_def Let_def)
qed

theorem optimize_rewrite_exhausted_witness:
  "\<not> (\<exists>req w c. json_schema req = Some OptimizationResultCore_schema
       \<and> fst (generate_response always_invalid_llm req w) = Inr (Core c))
   \<and> fst (fst (optimize isalpha_latin_arabic always_invalid_llm real
        (example_payload (ustr ''en'') (ustr ''en'')) (ResumeOptimizer_init 0)))
      = \<lparr>score = 0, missing_keywords = [], covered_keywords = [],
         change_log = [ustr ''Error: Failed to parse LLM response after retries''],
         preview_markdown = ustr ''Engineer'', detected_resume_lang = None,
         detected_jd_lang = None, extracted_entities = Some empty_entities,
         alignment_insights = Some empty_alignment\<rparr>
   \<and> \<not> last_run_valid (snd (fst (optimize isalpha_latin_arabic always_invalid_llm real
        (example_payload (ustr ''en'') (ustr ''en'')) (ResumeOptimizer_init 0))))"
proof -
  let ?run = "optimize isalpha_latin_arabic always_invalid_llm real
        (example_payload (ustr ''en'') (ustr ''en'')) (ResumeOptimizer_init 0)"
  have h: "\<forall>req w c. json_schema req = Some OptimizationResultCore_schema
       \<longrightarrow> fst (generate_response always_invalid_llm req w) \<noteq> Inr (Core c)"
    by (simp add: always_invalid_llm_def)
  have r: "extracted_entities (fst (fst ?run)) = Some empty_entities
     \<and> alignment_insights (fst (fst ?run)) = Some empty_alignment
     \<and> detected_resume_lang (fst (fst ?run)) = None
     \<and> detected_jd_lang (fst (fst ?run)) = None"
    by (simp add: optimize_def optimize_build_def invalid_stages)
  show ?thesis
    using h r optimize_rewrite_exhausted [OF h, of isalpha_latin_arabic real
        "example_payload (ustr ''en'') (ustr ''en'')" "ResumeOptimizer_init 0"]
    by (cases "fst (fst ?run)") (simp add: example_payload_def payload_empty_def)
qed

lemma stages_calls:
  "\<exists>reqs. calls (snd (optimize_stages llm time_time pl s)) = calls s @ reqs
     \<and> filter (\<lambda>r. json_schema r = None) reqs = []"
proof -
  let ?rt = "case p_resume_text pl of None \<Rightarrow> [] | Some v \<Rightarrow> v"
  let ?jd = "case p_job_description pl of None \<Rightarrow> [] | Some v \<Rightarrow> v"
  let ?s0 = "s\<lparr>metrics := ReliabilityMetrics_init\<rparr>"
  define r1 where "r1 = \<lparr>system_prompt = extract_system_prompt, user_prompt = ?rt,
        json_schema = Some ExtractedEntities_schema, temperature = 3 / 10\<rparr>"
  obtain entities s1 where e: "extract_entities_loop llm r1 MAX_RETRIES ?s0 = (entities, s1)"
    by (cases "extract_entities_loop llm r1 MAX_RETRIES ?s0")
  define r2 where "r2 = \<lparr>system_prompt = alignment_system_prompt,
        user_prompt = alignment_user_prompt entities ?jd,
        json_schema = Some AlignmentInsights_schema, temperature = 3 / 10\<rparr>"
  obtain alignment s2 where a: "analyze_alignment_loop llm r2 MAX_RETRIES s1 = (alignment, s2)"
    by (cases "analyze_alignment_loop llm r2 MAX_RETRIES s1")
  define r3 where "r3 = \<lparr>system_prompt = optimize_system_prompt
       (build_language_instructions (or_opt (p_resume_lang pl) (p_resumeLang pl))
          (or_opt (p_jd_lang pl) (p_jdLang pl))
          (or_opt (p_desired_output_lang pl) (p_desiredOutputLang pl))),
     user_prompt = optimize_user_prompt ?rt ?jd (p_instructions pl),
     json_schema = Some OptimizationResultCore_schema, temperature = 5 / 10\<rparr>"
  obtain core s3 where c: "optimize_loop llm r3 MAX_RETRIES s2 = (core, s3)"
    by (cases "optimize_loop llm r3 MAX_RETRIES s2")
  obtain k1 where k1: "calls s1 = calls ?s0 @ replicate k1 r1"
    using extract_loop_calls [of MAX_RETRIES llm r1 ?s0] e by auto
  obtain k2 where k2: "calls s2 = calls s1 @ replicate k2 r2"
    using analyze_loop_calls [of MAX_RETRIES llm r2 s1] a by auto
  obtain k3 where k3: "calls s3 = calls s2 @ replicate k3 r3"
    using optimize_loop_calls [of MAX_RETRIES llm r3 s2] c by auto
  have "calls (snd (optimize_stages llm time_time pl s)) = calls s3"
    using e a c unfolding r1_def r2_def r3_def
    by (simp add: optimize_stages_def extract_entities_def analyze_alignment_def Let_def)
  then have "calls (snd (optimize_stages llm time_time pl s))
      = calls s @ (replicate k1 r1 @ replicate k2 r2 @ replicate k3 r3)"
    using k1 k2 k3 by simp
  moreover have "filter (\<lambda>r. json_schema r = None)
      (replicate k1 r1 @ replicate k2 r2 @ replicate k3 r3) = []"
    by (simp add: r1_def r2_def r3_def)
  ultimately show ?thesis by blast
qed

lemma stages_langs:
  assumes "optimize_stages llm time_time pl s
     = ((resume_text, resume_lang, desired_output_lang, entities, alignment, core_result), s4)"
  shows "resume_lang = or_opt (p_resume_lang pl) (p_resumeLang pl)
       \<and> desired_output_lang = or_opt (p_desired_output_lang pl) (p_desiredOutputLang pl)"
  using assms by (simp add: optimize_stages_def Let_def split: prod.splits)

lemma translate_markdown_calls:
  "calls (snd (translate_markdown llm text target_lang s))
     = calls s @ [\<lparr>system_prompt = translate_system_prompt (language_name (Some target_lang)),
          user_prompt = text, json_schema = None, temperature = 2 / 10\<rparr>]"
  by (simp add: translate_markdown_def llm_generate_def Let_def
      split: prod.splits sum.splits llm_value.splits)

lemma translate_markdown_fst:
  "fst (translate_markdown llm text target_lang s)
     = (case fst (generate_response llm
          \<lparr>system_prompt = translate_system_prompt (language_name (Some target_lang)),
           user_prompt = text, json_schema = None, temperature = 2 / 10\<rparr> (world s)) of
          Inl e \<Rightarrow> Inl e
        | Inr (Text t) \<Rightarrow> Inr (py_strip t)
        | Inr _ \<Rightarrow> Inr text)"
  by (simp add: translate_markdown_def llm_generate_def Let_def
      split: prod.splits sum.splits llm_value.splits)

text \<open>
  Claim C3, as the code has it. Let a run of \<open>optimize\<close> reach the end of the rewrite
  stage with a result \<open>core\<close>. The target language is the desired output language, else
  the resume language, else \<^verbatim>\<open>en\<close>. The run sends exactly one free-text (translation)
  request when the preview is not blank and either the target is \<^verbatim>\<open>ar\<close> and the Arabic
  ratio of the preview is below 0.15, or the target is \<^verbatim>\<open>en\<close> and the ratio is above 0.15;
  otherwise it sends none. When the request is sent and the backend answers with a string,
  the stripped answer is the preview of the result; when the backend raises or answers
  with anything else, and when no request is sent, the preview is the rewritten text.
\<close>

theorem optimize_translation_call:
  assumes "optimize_stages llm time_time pl s
     = ((resume_text, resume_lang, desired_output_lang, entities, alignment, Some core), s4)"
  shows "resume_lang = or_opt (p_resume_lang pl) (p_resumeLang pl)
       \<and> desired_output_lang = or_opt (p_desired_output_lang pl) (p_desiredOutputLang pl)
       \<and> (let target_lang = or_str (or_opt desired_output_lang resume_lang) (ustr ''en'');
              text = preview_markdown core;
              needed = (py_strip text \<noteq> []
                 \<and> (target_lang = ustr ''ar'' \<and> arabic_ratio isalpha text < 15 / 100
                    \<or> target_lang = ustr ''en'' \<and> 15 / 100 < arabic_ratio isalpha text));
              call = \<lparr>system_prompt = translate_system_prompt (language_name (Some target_lang)),
                      user_prompt = text, json_schema = None, temperature = 2 / 10\<rparr>;
              run = optimize isalpha llm time_time pl s
          in filter (\<lambda>r. json_schema r = None) (drop (length (calls s)) (calls (snd run)))
               = (if needed then [call] else [])
           \<and> preview_markdown (fst (fst run))
               = (if needed
                  then (case fst (generate_response llm call (world s4)) of
                          Inr (Text t) \<Rightarrow> py_strip t
                        | _ \<Rightarrow> text)
                  else text))"
proof -
  let ?target = "or_str (or_opt desired_output_lang resume_lang) (ustr ''en'')"
  let ?text = "preview_markdown core"
  let ?call = "\<lparr>system_prompt = translate_system_prompt (language_name (Some ?target)),
                      user_prompt = ?text, json_schema = None, temperature = 2 / 10\<rparr>"
  obtain reqs where reqs: "calls s4 = calls s @ reqs"
      "filter (\<lambda>r. json_schema r = None) reqs = []"
    using stages_calls [of llm time_time pl s] assms by auto
  have needed: "needs_translation isalpha ?text ?target
      \<longleftrightarrow> (py_strip ?text \<noteq> []
                 \<and> (?target = ustr ''ar'' \<and> arabic_ratio isalpha ?text < 15 / 100
                    \<or> ?target = ustr ''en'' \<and> 15 / 100 < arabic_ratio isalpha ?text))"
    by (auto simp add: needs_translation_def ustr_def)
  obtain r s5 where t: "translate_markdown llm ?text ?target s4 = (r, s5)"
    by (cases "translate_markdown llm ?text ?target s4")
  have c5: "calls s5 = calls s4 @ [?call]"
    using t translate_markdown_calls [of llm ?text ?target s4] by simp
  have r: "r = (case fst (generate_response llm ?call (world s4)) of
          Inl e \<Rightarrow> Inl e
        | Inr (Text t) \<Rightarrow> Inr (py_strip t)
        | Inr _ \<Rightarrow> Inr ?text)"
    using t translate_markdown_fst [of llm ?text ?target s4] by simp
  have run: "optimize isalpha llm time_time pl s
      = optimize_build isalpha llm
          (resume_text, resume_lang, desired_output_lang, entities, alignment, Some core) s4"
    using assms by (simp add: optimize_def)
  have calls: "filter (\<lambda>r. json_schema r = None)
        (drop (length (calls s)) (calls (snd (optimize isalpha llm time_time pl s))))
      = (if needs_translation isalpha ?text ?target then [?call] else [])"
    unfolding run using t c5 reqs
    by (simp add: optimize_build_def Let_def split: sum.splits)
  have preview: "preview_markdown (fst (fst (optimize isalpha llm time_time pl s)))
      = (if needs_translation isalpha ?text ?target
         then (case fst (generate_response llm ?call (world s4)) of
                 Inr (Text t) \<Rightarrow> py_strip t
               | _ \<Rightarrow> ?text)
         else ?text)"
    unfolding run using t r
    by (simp add: optimize_build_def Let_def split: sum.splits llm_value.splits)
  show ?thesis
    unfolding Let_def
    using stages_langs [OF assms] calls [unfolded needed] preview [unfolded needed]
    by (intro conjI) (erule conjunct1, erule conjunct2, assumption+)
qed


theorem optimize_translation_call_witness:
  "fst (optimize_stages (scripted_llm (example_core (ustr ''Hello world'')) (32 # arabic_hello @ [10]))
      real (example_payload (ustr ''en'') (ustr ''ar'')) (ResumeOptimizer_init 0))
    = (ustr ''Engineer'', Some (ustr ''en''), Some (ustr ''ar''), empty_entities, empty_alignment,
       Some (example_core (ustr ''Hello world'')))
   \<and> filter (\<lambda>r. json_schema r = None)
        (calls (snd (optimize isalpha_latin_arabic
           (scripted_llm (example_core (ustr ''Hello world'')) (32 # arabic_hello @ [10]))
           real (example_payload (ustr ''en'') (ustr ''ar'')) (ResumeOptimizer_init 0))))
      = [\<lparr>system_prompt = translate_system_prompt (ustr ''Arabic''),
          user_prompt = ustr ''Hello world'', json_schema = None, temperature = 2 / 10\<rparr>]
   \<and> preview_markdown (fst (fst (optimize isalpha_latin_arabic
           (scripted_llm (example_core (ustr ''Hello world'')) (32 # arabic_hello @ [10]))
           real (example_payload (ustr ''en'') (ustr ''ar'')) (ResumeOptimizer_init 0))))
      = arabic_hello"
proof -
  let ?llm = "scripted_llm (example_core (ustr ''Hello world'')) (32 # arabic_hello @ [10])"
  let ?pl = "example_payload (ustr ''en'') (ustr ''ar'')"
  let ?st = "optimize_stages ?llm real ?pl (ResumeOptimizer_init 0)"
  have f: "fst ?st = (ustr ''Engineer'', Some (ustr ''en''), Some (ustr ''ar''), empty_entities,
       empty_alignment, Some (example_core (ustr ''Hello world'')))"
    by (simp add: scripted_stages)
  then have h: "?st = ((ustr ''Engineer'', Some (ustr ''en''), Some (ustr ''ar''), empty_entities,
       empty_alignment, Some (example_core (ustr ''Hello world''))), snd ?st)"
    by (simp add: prod_eq_iff)
  have hello: "py_strip (ustr ''Hello world'') \<noteq> []
      \<and> arabic_ratio isalpha_latin_arabic (ustr ''Hello world'') < 15 / 100"
    by (simp add: ustr_def py_strip_def py_isspace_def arabic_ratio_def isalpha_latin_arabic_def
        ARABIC_LETTER_RE_def)
  have tr: "py_strip (32 # arabic_hello @ [10]) = arabic_hello"
    by (simp add: py_strip_def py_isspace_def arabic_hello_def)
  have c: "calls (ResumeOptimizer_init (0::nat)) = []"
    by (simp add: ResumeOptimizer_init_def)
  show ?thesis
    using f c hello tr optimize_translation_call [OF h, of isalpha_latin_arabic]
    by (simp add: Let_def scripted_llm_def example_core_def or_opt_def or_str_def
        language_name_def LANGUAGE_LABELS_def)
qed


text \<open>
  Claim C3 as stated fails on two runs with a successful rewrite. In the first the target
  is Arabic and the preview is three spaces: its Arabic ratio is 0, below 0.15, and yet
  the run sends the three stage requests and no translation request. In the second the
  target is \<^verbatim>\<open>fr\<close>, not Arabic, and the preview is Arabic, of ratio 1: again no translation
  request is sent.
\<close>

theorem translation_claim_counterexample:
  "last_run_valid (snd (fst (optimize isalpha_latin_arabic
      (scripted_llm (example_core (ustr ''   '')) arabic_hello)
      real (example_payload (ustr ''en'') (ustr ''ar'')) (ResumeOptimizer_init 0))))
   \<and> arabic_ratio isalpha_latin_arabic (preview_markdown (example_core (ustr ''   ''))) < 15 / 100
   \<and> map json_schema (calls (snd (optimize isalpha_latin_arabic
        (scripted_llm (example_core (ustr ''   '')) arabic_hello)
        real (example_payload (ustr ''en'') (ustr ''ar'')) (ResumeOptimizer_init 0))))
      = [Some ExtractedEntities_schema, Some AlignmentInsights_schema,
         Some OptimizationResultCore_schema]
   \<and> last_run_valid (snd (fst (optimize isalpha_latin_arabic
        (scripted_llm (example_core arabic_hello) (ustr ''Bonjour''))
        real (example_payload (ustr ''ar'') (ustr ''fr'')) (ResumeOptimizer_init 0))))
   \<and> 15 / 100 < arabic_ratio isalpha_latin_arabic (preview_markdown (example_core arabic_hello))
   \<and> map json_schema (calls (snd (optimize isalpha_latin_arabic
        (scripted_llm (example_core arabic_hello) (ustr ''Bonjour''))
        real (example_payload (ustr ''ar'') (ustr ''fr'')) (ResumeOptimizer_init 0))))
      = [Some ExtractedEntities_schema, Some AlignmentInsights_schema,
         Some OptimizationResultCore_schema]"
proof -
  have blank: "py_strip (ustr ''   '') = []
      \<and> arabic_ratio isalpha_latin_arabic (ustr ''   '') < 15 / 100"
    by (simp add: ustr_def py_strip_def py_isspace_def arabic_ratio_def isalpha_latin_arabic_def)
  have arabic: "15 / 100 < arabic_ratio isalpha_latin_arabic arabic_hello"
    by (simp add: arabic_ratio_def isalpha_latin_arabic_def ARABIC_LETTER_RE_def arabic_hello_def)
  have n1: "\<not> needs_translation isalpha_latin_arabic (ustr ''   '') (ustr ''ar'')"
    using blank by (simp add: needs_translation_def)
  have n2: "\<not> needs_translation isalpha_latin_arabic arabic_hello (ustr ''fr'')"
    by (simp add: needs_translation_def)
  show ?thesis
    using blank arabic n1 n2
    by (simp add: optimize_def optimize_build_def scripted_stages example_core_def
        or_opt_def or_str_def)
qed


subsection \<open>The attempt counters\<close>

text \<open>
  Claim C2, run on the code. Against a backend that raises on every call the pipeline
  makes nine generation attempts, three in each of the stages 1 to 3, and counts nine
  invalid attempts; but \<open>total_attempts\<close> ends at 3, not 9, because only the rewrite
  loop counts its attempts.
\<close>

theorem attempt_counters_all_failing:
  "total_attempts (snd (fst (optimize isalpha_latin_arabic always_invalid_llm real
       (example_payload (ustr ''en'') (ustr ''en'')) (ResumeOptimizer_init 0)))) = 3
   \<and> invalid_json_attempts (snd (fst (optimize isalpha_latin_arabic always_invalid_llm real
       (example_payload (ustr ''en'') (ustr ''en'')) (ResumeOptimizer_init 0)))) = 9
   \<and> map json_schema (calls (snd (optimize isalpha_latin_arabic always_invalid_llm real
       (example_payload (ustr ''en'') (ustr ''en'')) (ResumeOptimizer_init 0))))
      = replicate 3 (Some ExtractedEntities_schema) @ replicate 3 (Some AlignmentInsights_schema)
        @ replicate 3 (Some OptimizationResultCore_schema)"
  by (simp add: optimize_def optimize_build_def invalid_stages)


subsection \<open>Language fallbacks\<close>

lemma dropWhile_all: "(\<forall>x\<in>set (dropWhile P xs). P x) \<longleftrightarrow> dropWhile P xs = []"
proof
  assume a: "\<forall>x\<in>set (dropWhile P xs). P x"
  show "dropWhile P xs = []"
  proof (rule ccontr)
    assume n: "dropWhile P xs \<noteq> []"
    then have "\<not> P (hd (dropWhile P xs))" by (rule hd_dropWhile)
    moreover have "hd (dropWhile P xs) \<in> set (dropWhile P xs)" using n by simp
    ultimately show False using a by blast
  qed
next
  assume "dropWhile P xs = []"
  then show "\<forall>x\<in>set (dropWhile P xs). P x" by (simp del: dropWhile_eq_Nil_conv)
qed

lemma py_strip_blank: "py_strip text = [] \<longleftrightarrow> (\<forall>c\<in>set text. py_isspace c)"
  by (simp add: py_strip_def dropWhile_all)

lemma language_name_cases: "language_name code = ustr ''English'' \<or> language_name code = ustr ''Arabic''"
  by (simp add: language_name_def LANGUAGE_LABELS_def)

text \<open>
  Claim C10. \<open>language_name\<close> is \<^verbatim>\<open>English\<close> on every code other than \<^verbatim>\<open>en\<close> and \<^verbatim>\<open>ar\<close>,
  the missing code included. The block built by \<open>build_language_instructions\<close> names
  \<^verbatim>\<open>English\<close> or \<^verbatim>\<open>Arabic\<close> as resume language, as job-description language and as desired
  output language, whatever the three codes are. \<open>needs_translation\<close> is false for every
  target language other than \<^verbatim>\<open>ar\<close> and \<^verbatim>\<open>en\<close>, and for every text that consists of white
  space only.
\<close>

theorem language_fallbacks:
  "(code \<noteq> Some (ustr ''en'') \<longrightarrow> code \<noteq> Some (ustr ''ar'')
      \<longrightarrow> language_name code = ustr ''English'')
   \<and> (\<exists>resume_label jd_label target_label.
         resume_label \<in> {ustr ''English'', ustr ''Arabic''}
       \<and> jd_label \<in> {ustr ''English'', ustr ''Arabic''}
       \<and> target_label \<in> {ustr ''English'', ustr ''Arabic''}
       \<and> build_language_instructions resume_lang jd_lang desired_output_lang
          = ustr ''Language context:\<newline>- Resume language: '' @ resume_label
          @ ustr ''\<newline>- Job description language: '' @ jd_label
          @ ustr ''\<newline>- Desired output language: '' @ target_label
          @ ustr ''\<newline>\<newline>Rules:\<newline>- preview_markdown MUST be written in '' @ target_label
          @ ustr ''.\<newline>- If the resume or job description is in a different language, translate the content into ''
          @ target_label
          @ ustr ''.\<newline>- Keep proper nouns (company names, product names, certifications) in their original language.\<newline>- If preserving ATS keywords helps, you may keep the original keyword in parentheses.'')
   \<and> (target_lang \<noteq> ustr ''ar'' \<longrightarrow> target_lang \<noteq> ustr ''en''
        \<longrightarrow> \<not> needs_translation isalpha text target_lang)
   \<and> ((\<forall>c\<in>set blank. py_isspace c) \<longrightarrow> \<not> needs_translation isalpha blank target_lang)"
proof (intro conjI)
  show "code \<noteq> Some (ustr ''en'') \<longrightarrow> code \<noteq> Some (ustr ''ar'')
      \<longrightarrow> language_name code = ustr ''English''"
    by (cases code) (simp_all add: language_name_def LANGUAGE_LABELS_def or_str_def)
  show "target_lang \<noteq> ustr ''ar'' \<longrightarrow> target_lang \<noteq> ustr ''en''
        \<longrightarrow> \<not> needs_translation isalpha text target_lang"
    by (simp add: needs_translation_def)
  show "(\<forall>c\<in>set blank. py_isspace c) \<longrightarrow> \<not> needs_translation isalpha blank target_lang"
    by (simp add: needs_translation_def py_strip_blank)
  let ?target = "Some (or_str (or_opt desired_output_lang resume_lang) (ustr ''en''))"
  show "\<exists>resume_label jd_label target_label.
         resume_label \<in> {ustr ''English'', ustr ''Arabic''}
       \<and> jd_label \<in> {ustr ''English'', ustr ''Arabic''}
       \<and> target_label \<in> {ustr ''English'', ustr ''Arabic''}
       \<and> build_language_instructions resume_lang jd_lang desired_output_lang
          = ustr ''Language context:\<newline>- Resume language: '' @ resume_label
          @ ustr ''\<newline>- Job description language: '' @ jd_label
          @ ustr ''\<newline>- Desired output language: '' @ target_label
          @ ustr ''\<newline>\<newline>Rules:\<newline>- preview_markdown MUST be written in '' @ target_label
          @ ustr ''.\<newline>- If the resume or job description is in a different language, translate the content into ''
          @ target_label
          @ ustr ''.\<newline>- Keep proper nouns (company names, product names, certifications) in their original language.\<newline>- If preserving ATS keywords helps, you may keep the original keyword in parentheses.''"
  proof (intro exI conjI)
    show "language_name resume_lang \<in> {ustr ''English'', ustr ''Arabic''}"
      using language_name_cases [of resume_lang] by simp
    show "language_name jd_lang \<in> {ustr ''English'', ustr ''Arabic''}"
      using language_name_cases [of jd_lang] by simp
    show "language_name ?target \<in> {ustr ''English'', ustr ''Arabic''}"
      using language_name_cases [of ?target] by simp
    show "build_language_instructions resume_lang jd_lang desired_output_lang
          = ustr ''Language context:\<newline>- Resume language: '' @ language_name resume_lang
          @ ustr ''\<newline>- Job description language: '' @ language_name jd_lang
          @ ustr ''\<newline>- Desired output language: '' @ language_name ?target
          @ ustr ''\<newline>\<newline>Rules:\<newline>- preview_markdown MUST be written in '' @ language_name ?target
          @ ustr ''.\<newline>- If the resume or job description is in a different language, translate the content into ''
          @ language_name ?target
          @ ustr ''.\<newline>- Keep proper nouns (company names, product names, certifications) in their original language.\<newline>- If preserving ATS keywords helps, you may keep the original keyword in parentheses.''"
      unfolding build_language_instructions_def Let_def by (rule refl)
  qed
qed

theorem language_fallbacks_witness:
  "Some (ustr ''fr'') \<noteq> Some (ustr ''en'') \<and> Some (ustr ''fr'') \<noteq> Some (ustr ''ar'')
   \<and> language_name (Some (ustr ''fr'')) = ustr ''English''
   \<and> ustr ''fr'' \<noteq> ustr ''ar'' \<and> ustr ''fr'' \<noteq> ustr ''en''
   \<and> \<not> needs_translation isalpha_latin_arabic arabic_hello (ustr ''fr'')
   \<and> list_all py_isspace (ustr ''   '')
   \<and> \<not> needs_translation isalpha_latin_arabic (ustr ''   '') (ustr ''fr'')"
proof -
  have h: "Some (ustr ''fr'') \<noteq> Some (ustr ''en'') \<and> Some (ustr ''fr'') \<noteq> Some (ustr ''ar'')
     \<and> ustr ''fr'' \<noteq> ustr ''ar'' \<and> ustr ''fr'' \<noteq> ustr ''en''
     \<and> (\<forall>c\<in>set (ustr ''   ''). py_isspace c)"
    by (simp add: ustr_def py_isspace_def)
  show ?thesis
    using h language_fallbacks [of "Some (ustr ''fr'')" None None None "ustr ''fr''"
        isalpha_latin_arabic arabic_hello "ustr ''   ''"]
    unfolding list_all_iff by blast
qed

section \<open>Properties of the matcher\<close>

lemma sum_squares_zero: "(\<Sum>x\<leftarrow>a. x * x) = 0 \<longleftrightarrow> (\<forall>x\<in>set a. x = (0::real))"
proof (induction a)
  case Nil
  show ?case by simp
next
  case (Cons y ys)
  have "0 \<le> (\<Sum>x\<leftarrow>ys. x * x)" by (rule sum_list_nonneg) auto
  moreover have "0 \<le> y * y" by simp
  ultimately have "y * y + (\<Sum>x\<leftarrow>ys. x * x) = 0 \<longleftrightarrow> y * y = 0 \<and> (\<Sum>x\<leftarrow>ys. x * x) = 0"
    by (simp add: add_nonneg_eq_0_iff)
  then show ?case using Cons.IH by simp
qed

lemma np_linalg_norm_zero: "np_linalg_norm a = 0 \<longleftrightarrow> (\<forall>x\<in>set a. x = 0)"
  by (simp add: np_linalg_norm_def sum_squares_zero)

text \<open>
  Claim C8, as the code has it. On two vectors of the same length of which one has norm
  zero, \<open>cosine_similarity\<close> returns exactly 0; a vector has norm zero exactly when all its
  entries are zero, so this covers the zero vectors and two empty vectors. When both norms
  are nonzero it returns the dot product divided by the product of the norms, which is
  not zero: no division by zero takes place. On vectors of different lengths, one empty
  vector against a nonempty one included, \<^verbatim>\<open>np.dot\<close> raises and so does \<open>cosine_similarity\<close>.
\<close>

theorem cosine_similarity_zero_norm:
  "(length a = length b \<longrightarrow> np_linalg_norm a = 0 \<or> np_linalg_norm b = 0
      \<longrightarrow> cosine_similarity a b = Inr 0)
   \<and> (np_linalg_norm a = 0 \<longleftrightarrow> (\<forall>x\<in>set a. x = 0))
   \<and> (length a = length b \<longrightarrow> np_linalg_norm a \<noteq> 0 \<longrightarrow> np_linalg_norm b \<noteq> 0
      \<longrightarrow> np_linalg_norm a * np_linalg_norm b \<noteq> 0
        \<and> cosine_similarity a b
            = Inr ((\<Sum>(x, y)\<leftarrow>zip a b. x * y) / (np_linalg_norm a * np_linalg_norm b)))
   \<and> (length a \<noteq> length b
      \<longrightarrow> cosine_similarity a b = Inl (OtherException (ustr ''ValueError'')))"
  by (simp add: cosine_similarity_def np_dot_def np_linalg_norm_zero)

theorem cosine_similarity_zero_norm_witness:
  "cosine_similarity [0, 0] [3, 4] = Inr 0
   \<and> cosine_similarity [] [] = Inr 0
   \<and> np_linalg_norm [0, 0] = 0
   \<and> cosine_similarity [] [3, 4] = Inl (OtherException (ustr ''ValueError''))"
  using cosine_similarity_zero_norm [of "[0, 0]" "[3, 4]"]
    cosine_similarity_zero_norm [of "[]" "[]"]
    cosine_similarity_zero_norm [of "[]" "[3, 4]"]
  by simp

text \<open>
  Claim C8 as stated fails: with an empty first vector and a nonempty second one the
  function raises instead of returning 0.
\<close>

theorem cosine_similarity_claim_counterexample:
  "cosine_similarity [] [1] = Inl (OtherException (ustr ''ValueError''))"
  by (simp add: cosine_similarity_def np_dot_def)

lemma get_embedding_det:
  assumes "\<forall>t w. fst (get_embedding llm t w) = emb t"
  shows "fst (ResumeMatcher_get_embedding llm text w) = embedding_of emb text"
proof -
  obtain r w' where g: "get_embedding llm text w = (r, w')" by (cases "get_embedding llm text w")
  then have "r = emb text" using assms by (metis fst_conv)
  then show ?thesis using g
    by (simp add: ResumeMatcher_get_embedding_def embedding_of_def split: sum.splits)
qed

lemma embedding_of_dim:
  assumes "\<forall>t v. emb t = Inr v \<longrightarrow> v = [] \<or> length v = n"
  shows "embedding_of emb text = [] \<or> length (embedding_of emb text) = n"
  using assms by (auto simp add: embedding_of_def split: sum.splits)

lemma cosine_similarity_spec:
  assumes "length a = length b"
  shows "cosine_similarity a b = Inr (spec_similarity a b)"
  using assms by (auto simp add: cosine_similarity_def np_dot_def spec_similarity_def Let_def
      np_linalg_norm_def)

lemma section_score_det:
  assumes det: "\<forall>t w. fst (get_embedding llm t w) = emb t"
      and dim: "\<forall>t v. emb t = Inr v \<longrightarrow> v = [] \<or> length v = n"
      and job: "length job_embedding = n"
  shows "fst (section_score llm job_embedding text w)
         = Inr (spec_similarity job_embedding (embedding_of emb text))"
proof (cases "text = []")
  case True
  then show ?thesis
    by (simp add: section_score_def spec_similarity_def embedding_of_def py_strip_def)
next
  case False
  obtain v w' where g: "ResumeMatcher_get_embedding llm text w = (v, w')"
    by (cases "ResumeMatcher_get_embedding llm text w")
  have v: "v = embedding_of emb text" using get_embedding_det [OF det, of "text" w] g by simp
  show ?thesis
  proof (cases "v = []")
    case True
    then show ?thesis using False g v by (simp add: section_score_def spec_similarity_def)
  next
    case nonempty: False
    then have "length v = n" using embedding_of_dim [OF dim, of "text"] v by simp
    then have "cosine_similarity job_embedding v = Inr (spec_similarity job_embedding v)"
      using job by (simp add: cosine_similarity_spec)
    then show ?thesis using False g v nonempty by (simp add: section_score_def)
  qed
qed

text \<open>
  Claim C7. Let the backend's embedding of a text be a function \<open>emb\<close> of the text, all
  its nonempty embeddings of one dimension, and let the embedding of the job description
  be nonempty. Then \<open>calculate_match_score\<close> returns a result, and its \<open>overall_score\<close> is
  \<open>round(100 * (0.5 * skills + 0.3 * experience + 0.2 * education), 1)\<close>, where each of
  the three similarities is the cosine similarity of the job-description embedding and the
  embedding of that section's joined text alone, and 0 for a section with no text or no
  embedding.
\<close>

theorem overall_score_weighted:
  assumes det: "\<forall>t w. fst (get_embedding llm t w) = emb t"
      and dim: "\<forall>t v. emb t = Inr v \<longrightarrow> v = [] \<or> length v = n"
      and job: "embedding_of emb job_description \<noteq> []"
  shows "\<exists>result. fst (calculate_match_score llm resume_skills resume_experience
                         resume_education job_description w) = Inr result
       \<and> overall_score result
         = py_round (100 *
             (0.5 * spec_similarity (embedding_of emb job_description)
                      (embedding_of emb (py_join (ustr '', '') resume_skills))
            + 0.3 * spec_similarity (embedding_of emb job_description)
                      (embedding_of emb (py_join (ustr '' | '') resume_experience))
            + 0.2 * spec_similarity (embedding_of emb job_description)
                      (embedding_of emb (py_join (ustr '', '') resume_education)))) 1"
proof -
  let ?job = "embedding_of emb job_description"
  let ?st = "py_join (ustr '', '') resume_skills"
  let ?xt = "py_join (ustr '' | '') resume_experience"
  let ?et = "py_join (ustr '', '') resume_education"
  obtain j w0 where g: "ResumeMatcher_get_embedding llm job_description w = (j, w0)"
    by (cases "ResumeMatcher_get_embedding llm job_description w")
  have j: "j = ?job" using get_embedding_det [OF det, of job_description w] g by simp
  have len: "length ?job = n" using embedding_of_dim [OF dim, of job_description] job by simp
  obtain r1 w1 where s1: "section_score llm ?job ?st w0 = (r1, w1)"
    by (cases "section_score llm ?job ?st w0")
  obtain r2 w2 where s2: "section_score llm ?job ?xt w1 = (r2, w2)"
    by (cases "section_score llm ?job ?xt w1")
  obtain r3 w3 where s3: "section_score llm ?job ?et w2 = (r3, w3)"
    by (cases "section_score llm ?job ?et w2")
  have r1: "r1 = Inr (spec_similarity ?job (embedding_of emb ?st))"
    using section_score_det [OF det dim len, of ?st w0] s1 by simp
  have r2: "r2 = Inr (spec_similarity ?job (embedding_of emb ?xt))"
    using section_score_det [OF det dim len, of ?xt w1] s2 by simp
  have r3: "r3 = Inr (spec_similarity ?job (embedding_of emb ?et))"
    using section_score_det [OF det dim len, of ?et w2] s3 by simp
  have texts: "(if resume_skills \<noteq> [] then ?st else []) = ?st"
      "(if resume_experience \<noteq> [] then ?xt else []) = ?xt"
      "(if resume_education \<noteq> [] then ?et else []) = ?et"
    by simp_all
  have arith: "0 + a * (50 / 100) * 100 + b * (30 / 100) * 100 + c * (20 / 100) * 100
      = 100 * (0.5 * a + 0.3 * b + 0.2 * c)" for a b c :: real
    by (simp add: algebra_simps)
  show ?thesis
    unfolding calculate_match_score_def Let_def texts
    using g j job s1 s2 s3 r1 r2 r3 by (simp add: WEIGHTS_def arith)
qed

lemma sqrt_25: "sqrt 25 = 5"
  by (rule real_sqrt_unique) simp_all

lemma example_table_dim:
  "\<forall>t v. table_lookup example_table t = Inr v \<longrightarrow> v = [] \<or> length v = 2"
  by (auto simp add: table_lookup_def example_table_def split: option.splits if_splits)

lemma example_embeddings:
  "embedding_of (table_lookup example_table) (ustr ''dev'') = [3, 4]"
  "embedding_of (table_lookup example_table) (py_join (ustr '', '') [ustr ''py'', ustr ''sql'']) = [3, 4]"
  "embedding_of (table_lookup example_table) (py_join (ustr '' | '') [ustr ''a'', ustr ''b'']) = [4, - 3]"
  "embedding_of (table_lookup example_table) (py_join (ustr '', '') [ustr ''bsc'']) = [0, 5]"
  by (simp_all add: embedding_of_def table_lookup_def example_table_def ustr_def py_strip_def
      py_isspace_def)

lemma example_similarities:
  "spec_similarity [3, 4] [3, 4] = 1"
  "spec_similarity [3, 4] [4, - 3] = 0"
  "spec_similarity [3, 4] [0, 5] = 8 / 10"
  by (simp_all add: spec_similarity_def np_linalg_norm_def sqrt_25)

theorem overall_score_weighted_witness:
  "embedding_of (table_lookup example_table) (ustr ''dev'') = [3, 4]
   \<and> (\<exists>result. fst (calculate_match_score (table_embedder example_table)
          [ustr ''py'', ustr ''sql''] [ustr ''a'', ustr ''b''] [ustr ''bsc''] (ustr ''dev'') 0)
        = Inr result
      \<and> overall_score result = 66)"
proof -
  have det: "\<forall>t w. fst (get_embedding (table_embedder example_table) t w)
      = table_lookup example_table t"
    by (simp add: table_embedder_def table_lookup_def)
  have job: "embedding_of (table_lookup example_table) (ustr ''dev'') \<noteq> []"
    by (simp add: example_embeddings)
  have v: "py_round (100 * (0.5 * 1 + 0.3 * 0 + 0.2 * (8 / 10))) 1 = 66"
    by (simp add: py_round_def round_half_even_def)
  have "\<exists>result. fst (calculate_match_score (table_embedder example_table)
          [ustr ''py'', ustr ''sql''] [ustr ''a'', ustr ''b''] [ustr ''bsc''] (ustr ''dev'') 0)
        = Inr result
      \<and> overall_score result = 66"
    using overall_score_weighted [OF det example_table_dim job,
        of "[ustr ''py'', ustr ''sql'']" "[ustr ''a'', ustr ''b'']" "[ustr ''bsc'']" 0]
    unfolding example_embeddings example_similarities v .
  then show ?thesis using example_embeddings(1) by blast
qed

text \<open>
  For every backend, also one whose answers depend on what it was asked before: a result
  without the error entry has an overall score that is the rounded weighted sum of three
  numbers whose rounded hundredfolds are its three section scores.
\<close>

lemma overall_score_components:
  assumes run: "fst (calculate_match_score llm resume_skills resume_experience resume_education
                  job_description w) = Inr result"
      and ok: "error result = None"
  shows "\<exists>s e d. overall_score result = py_round (100 * (0.5 * s + 0.3 * e + 0.2 * d)) 1
           \<and> skills_score result = py_round (s * 100) 1
           \<and> experience_score result = py_round (e * 100) 1
           \<and> education_score result = py_round (d * 100) 1"
proof -
  let ?st = "py_join (ustr '', '') resume_skills"
  let ?xt = "py_join (ustr '' | '') resume_experience"
  let ?et = "py_join (ustr '', '') resume_education"
  have texts: "(if resume_skills \<noteq> [] then ?st else []) = ?st"
      "(if resume_experience \<noteq> [] then ?xt else []) = ?xt"
      "(if resume_education \<noteq> [] then ?et else []) = ?et"
    by simp_all
  obtain j w0 where g: "ResumeMatcher_get_embedding llm job_description w = (j, w0)"
    by (cases "ResumeMatcher_get_embedding llm job_description w")
  have j: "j \<noteq> []"
    using run ok g by (auto simp add: calculate_match_score_def)
  obtain r1 w1 where s1: "section_score llm j ?st w0 = (r1, w1)"
    by (cases "section_score llm j ?st w0")
  obtain r2 w2 where s2: "section_score llm j ?xt w1 = (r2, w2)"
    by (cases "section_score llm j ?xt w1")
  obtain r3 w3 where s3: "section_score llm j ?et w2 = (r3, w3)"
    by (cases "section_score llm j ?et w2")
  have unfolded: "fst (calculate_match_score llm resume_skills resume_experience resume_education
                  job_description w)
      = (case r1 of Inl e \<Rightarrow> Inl e | Inr s \<Rightarrow>
         (case r2 of Inl e \<Rightarrow> Inl e | Inr x \<Rightarrow>
         (case r3 of Inl e \<Rightarrow> Inl e | Inr d \<Rightarrow>
            Inr \<lparr>overall_score = py_round (0 + s * skills_weight WEIGHTS * 100
                      + x * experience_weight WEIGHTS * 100
                      + d * education_weight WEIGHTS * 100) 1,
                 skills_score = py_round (s * 100) 1,
                 experience_score = py_round (x * 100) 1,
                 education_score = py_round (d * 100) 1,
                 breakdown = Some WEIGHTS, error = None\<rparr>)))"
    unfolding calculate_match_score_def Let_def texts
    using g j s1 s2 s3 by (simp split: sum.splits)
  obtain s where r1: "r1 = Inr s" using run unfolded by (cases r1) simp_all
  obtain x where r2: "r2 = Inr x" using run unfolded r1 by (cases r2) simp_all
  obtain d where r3: "r3 = Inr d" using run unfolded r1 r2 by (cases r3) simp_all
  have arith: "0 + a * (50 / 100) * 100 + b * (30 / 100) * 100 + c * (20 / 100) * 100
      = 100 * (0.5 * a + 0.3 * b + 0.2 * c)" for a b c :: real
    by (simp add: algebra_simps)
  have "result = \<lparr>overall_score = py_round (100 * (0.5 * s + 0.3 * x + 0.2 * d)) 1,
                 skills_score = py_round (s * 100) 1,
                 experience_score = py_round (x * 100) 1,
                 education_score = py_round (d * 100) 1,
                 breakdown = Some WEIGHTS, error = None\<rparr>"
    using run unfolded r1 r2 r3 by (simp add: WEIGHTS_def arith)
  then show ?thesis by (intro exI [of _ s] exI [of _ x] exI [of _ d]) simp
qed

lemma get_embedding_dim:
  assumes "\<forall>t w v. fst (get_embedding llm t w) = Inr v \<longrightarrow> v = [] \<or> length v = n"
  shows "fst (ResumeMatcher_get_embedding llm section_text w) = []
       \<or> length (fst (ResumeMatcher_get_embedding llm section_text w)) = n"
proof -
  obtain r w' where g: "get_embedding llm section_text w = (r, w')" by (cases "get_embedding llm section_text w")
  have "\<forall>v. fst (get_embedding llm section_text w) = Inr v \<longrightarrow> v = [] \<or> length v = n"
    using assms by blast
  then have "\<forall>v. r = Inr v \<longrightarrow> v = [] \<or> length v = n" using g by simp
  then show ?thesis using g
    by (auto simp add: ResumeMatcher_get_embedding_def split: sum.splits)
qed

lemma section_score_returns:
  assumes dim: "\<forall>t w v. fst (get_embedding llm t w) = Inr v \<longrightarrow> v = [] \<or> length v = n"
      and job: "length job_embedding = n"
  shows "\<exists>r. fst (section_score llm job_embedding section_text w) = Inr r"
proof -
  obtain v w' where g: "ResumeMatcher_get_embedding llm section_text w = (v, w')"
    by (cases "ResumeMatcher_get_embedding llm section_text w")
  have "v = [] \<or> length v = n" using get_embedding_dim [OF dim, of section_text w] g by simp
  then show ?thesis using g job
    by (auto simp add: section_score_def cosine_similarity_spec)
qed

lemma calculate_match_score_returns:
  assumes dim: "\<forall>t w v. fst (get_embedding llm t w) = Inr v \<longrightarrow> v = [] \<or> length v = n"
  shows "\<exists>result. fst (calculate_match_score llm resume_skills resume_experience
                         resume_education job_description w) = Inr result"
proof -
  let ?st = "if resume_skills \<noteq> [] then py_join (ustr '', '') resume_skills else []"
  let ?xt = "if resume_experience \<noteq> [] then py_join (ustr '' | '') resume_experience else []"
  let ?et = "if resume_education \<noteq> [] then py_join (ustr '', '') resume_education else []"
  obtain j w0 where g: "ResumeMatcher_get_embedding llm job_description w = (j, w0)"
    by (cases "ResumeMatcher_get_embedding llm job_description w")
  show ?thesis
  proof (cases "j = []")
    case True
    then show ?thesis using g by (simp add: calculate_match_score_def)
  next
    case False
    then have len: "length j = n" using get_embedding_dim [OF dim, of job_description w] g by simp
    obtain r1 w1 where s1: "section_score llm j ?st w0 = (r1, w1)"
      by (cases "section_score llm j ?st w0")
    obtain r2 w2 where s2: "section_score llm j ?xt w1 = (r2, w2)"
      by (cases "section_score llm j ?xt w1")
    obtain r3 w3 where s3: "section_score llm j ?et w2 = (r3, w3)"
      by (cases "section_score llm j ?et w2")
    obtain a where r1: "r1 = Inr a"
      using section_score_returns [OF dim len, of ?st w0] s1 by auto
    obtain b where r2: "r2 = Inr b"
      using section_score_returns [OF dim len, of ?xt w1] s2 by auto
    obtain c where r3: "r3 = Inr c"
      using section_score_returns [OF dim len, of ?et w2] s3 by auto
    show ?thesis
      unfolding calculate_match_score_def Let_def
      using g False s1 s2 s3 r1 r2 r3 by simp
  qed
qed

lemma rank_loop_returns:
  assumes dim: "\<forall>t w v. fst (get_embedding llm t w) = Inr v \<longrightarrow> v = [] \<or> length v = n"
  shows "\<exists>results. fst (rank_loop llm job_description candidates w) = Inr results"
proof (induction candidates arbitrary: w)
  case Nil
  show ?case by simp
next
  case (Cons c cs)
  let ?call = "calculate_match_score llm
             (case candidate_skills c of None \<Rightarrow> [] | Some v \<Rightarrow> v)
             (case candidate_experience c of None \<Rightarrow> [] | Some v \<Rightarrow> v)
             (case candidate_education c of None \<Rightarrow> [] | Some v \<Rightarrow> v)
             job_description w"
  obtain r w' where call: "?call = (r, w')" by (cases ?call)
  obtain score_data where r: "r = Inr score_data"
    using calculate_match_score_returns [OF dim, of "case candidate_skills c of None \<Rightarrow> [] | Some v \<Rightarrow> v"
        "case candidate_experience c of None \<Rightarrow> [] | Some v \<Rightarrow> v"
        "case candidate_education c of None \<Rightarrow> [] | Some v \<Rightarrow> v" job_description w] call
    by auto
  obtain r' w'' where rest: "rank_loop llm job_description cs w' = (r', w'')"
    by (cases "rank_loop llm job_description cs w'")
  obtain results where r': "r' = Inr results"
    using Cons.IH [of w'] rest by auto
  show ?case using call r rest r' by simp
qed

lemma rank_loop_ids:
  assumes "fst (rank_loop llm job_description candidates w) = Inr results"
  shows "map entry_id results = map candidate_id candidates"
  using assms
proof (induction candidates arbitrary: w results)
  case Nil
  then show ?case by simp
next
  case (Cons c cs)
  let ?call = "calculate_match_score llm
             (case candidate_skills c of None \<Rightarrow> [] | Some v \<Rightarrow> v)
             (case candidate_experience c of None \<Rightarrow> [] | Some v \<Rightarrow> v)
             (case candidate_education c of None \<Rightarrow> [] | Some v \<Rightarrow> v)
             job_description w"
  obtain r w' where call: "?call = (r, w')" by (cases ?call)
  obtain r' w'' where rest: "rank_loop llm job_description cs w' = (r', w'')"
    by (cases "rank_loop llm job_description cs w'")
  obtain score_data where r: "r = Inr score_data"
    using Cons.prems call by (cases r) simp_all
  obtain rs where r': "r' = Inr rs"
    using Cons.prems call r rest by (cases r') simp_all
  have "results = make_entry c score_data # rs"
    using Cons.prems call r rest r' by simp
  moreover have "map entry_id rs = map candidate_id cs"
    using Cons.IH [of w' rs] rest r' by simp
  ultimately show ?case by (simp add: make_entry_def)
qed

text \<open>
  Claim C9. When all nonempty embeddings of the backend have one dimension,
  \<open>rank_candidates\<close> returns a list. Whenever it returns a list \<open>ranked\<close>, the scoring
  loop has produced one entry per candidate, in the order of the input and with the
  candidates' ids; \<open>ranked\<close> is a permutation of these entries, as long as the input, in
  descending order of \<open>overall_score\<close>, and for every score the entries of that score
  stand in \<open>ranked\<close> in their input order.
\<close>

theorem rank_candidates_sorted_stable:
  "((\<forall>t w v. fst (get_embedding llm t w) = Inr v \<longrightarrow> v = [] \<or> length v = n)
      \<longrightarrow> (\<exists>ranked. fst (rank_candidates llm candidates job_description w) = Inr ranked))
   \<and> (\<forall>ranked. fst (rank_candidates llm candidates job_description w) = Inr ranked
      \<longrightarrow> (\<exists>results. fst (rank_loop llm job_description candidates w) = Inr results
           \<and> map entry_id results = map candidate_id candidates
           \<and> length ranked = length candidates
           \<and> mset ranked = mset results
           \<and> sorted_wrt (\<lambda>x y. overall_score y \<le> overall_score x) ranked
           \<and> (\<forall>k. filter (\<lambda>x. overall_score x = k) ranked
                  = filter (\<lambda>x. overall_score x = k) results)))"
proof (intro conjI impI allI)
  assume dim: "\<forall>t w v. fst (get_embedding llm t w) = Inr v \<longrightarrow> v = [] \<or> length v = n"
  obtain r w' where l: "rank_loop llm job_description candidates w = (r, w')"
    by (cases "rank_loop llm job_description candidates w")
  obtain results where "r = Inr results"
    using rank_loop_returns [OF dim, of job_description candidates w] l by auto
  then show "\<exists>ranked. fst (rank_candidates llm candidates job_description w) = Inr ranked"
    using l by (simp add: rank_candidates_def)
next
  fix ranked
  assume a: "fst (rank_candidates llm candidates job_description w) = Inr ranked"
  obtain r w' where l: "rank_loop llm job_description candidates w = (r, w')"
    by (cases "rank_loop llm job_description candidates w")
  have rc: "fst (rank_candidates llm candidates job_description w)
      = (case r of Inl e \<Rightarrow> Inl e | Inr results \<Rightarrow> Inr (sort_reverse overall_score results))"
    by (simp add: rank_candidates_def l split: sum.splits)
  obtain results where r: "r = Inr results"
    using a rc by (cases r) simp_all
  have ranked: "ranked = sort_reverse overall_score results"
    using a rc r by simp
  have lr: "fst (rank_loop llm job_description candidates w) = Inr results"
    using l r by simp
  have ids: "map entry_id results = map candidate_id candidates"
    using lr by (rule rank_loop_ids)
  have "length results = length candidates"
    using ids by (rule map_eq_imp_length_eq)
  then have len: "length ranked = length candidates"
    by (simp add: ranked sort_reverse_def)
  have perm: "mset ranked = mset results"
    by (simp add: ranked sort_reverse_def)
  have "sorted (map (\<lambda>x. - overall_score x) ranked)"
    by (simp add: ranked sort_reverse_def)
  then have desc: "sorted_wrt (\<lambda>x y. overall_score y \<le> overall_score x) ranked"
    by (simp add: sorted_map)
  have stable: "filter (\<lambda>x. overall_score x = k) ranked
      = filter (\<lambda>x. overall_score x = k) results" for k
    using sort_key_stable [of "\<lambda>x. - overall_score x" "- k" results]
    by (simp add: ranked sort_reverse_def)
  show "\<exists>results. fst (rank_loop llm job_description candidates w) = Inr results
           \<and> map entry_id results = map candidate_id candidates
           \<and> length ranked = length candidates
           \<and> mset ranked = mset results
           \<and> sorted_wrt (\<lambda>x y. overall_score y \<le> overall_score x) ranked
           \<and> (\<forall>k. filter (\<lambda>x. overall_score x = k) ranked
                  = filter (\<lambda>x. overall_score x = k) results)"
    using lr ids len perm desc stable by blast
qed

lemma example_lookups:
  "ResumeMatcher_get_embedding (table_embedder example_table) (ustr ''dev'') w = ([3, 4], Suc w)"
  "ResumeMatcher_get_embedding (table_embedder example_table) (ustr ''py'') w = ([3, 4], Suc w)"
  by (simp_all add: ResumeMatcher_get_embedding_def table_embedder_def example_table_def
      ustr_def py_strip_def py_isspace_def)

lemma example_cosine: "cosine_similarity [3, 4] [3, 4] = Inr 1"
  by (simp add: cosine_similarity_def np_dot_def np_linalg_norm_def sqrt_25)

lemma example_rounds: "py_round 50 (Suc 0) = 50" "py_round 80 (Suc 0) = 80"
    "py_round 100 (Suc 0) = 100" "py_round 0 (Suc 0) = 0"
  by (simp_all add: py_round_def round_half_even_def)

lemma example_score_skills:
  "calculate_match_score (table_embedder example_table) [ustr ''py''] [] [] (ustr ''dev'') w
   = (Inr \<lparr>overall_score = 50, skills_score = 100, experience_score = 0, education_score = 0,
            breakdown = Some WEIGHTS, error = None\<rparr>, Suc (Suc w))"
  by (simp add: calculate_match_score_def section_score_def example_lookups example_cosine
      example_rounds WEIGHTS_def)

lemma example_score_both:
  "calculate_match_score (table_embedder example_table) [ustr ''py''] [ustr ''dev''] []
     (ustr ''dev'') w
   = (Inr \<lparr>overall_score = 80, skills_score = 100, experience_score = 100, education_score = 0,
            breakdown = Some WEIGHTS, error = None\<rparr>, Suc (Suc (Suc w)))"
  by (simp add: calculate_match_score_def section_score_def example_lookups example_cosine
      example_rounds WEIGHTS_def)

lemma example_rank_loop:
  "rank_loop (table_embedder example_table) (ustr ''dev'') example_candidates 0
   = (Inr [make_entry (example_candidate ''a'' [ustr ''py''] [])
             \<lparr>overall_score = 50, skills_score = 100, experience_score = 0,
              education_score = 0, breakdown = Some WEIGHTS, error = None\<rparr>,
           make_entry (example_candidate ''b'' [ustr ''py''] [ustr ''dev''])
             \<lparr>overall_score = 80, skills_score = 100, experience_score = 100,
              education_score = 0, breakdown = Some WEIGHTS, error = None\<rparr>,
           make_entry (example_candidate ''c'' [ustr ''py''] [])
             \<lparr>overall_score = 50, skills_score = 100, experience_score = 0,
              education_score = 0, breakdown = Some WEIGHTS, error = None\<rparr>], 7)"
  by (simp add: example_candidates_def example_candidate_def example_score_skills
      example_score_both)

lemma example_ranking:
  "fst (rank_candidates (table_embedder example_table) example_candidates (ustr ''dev'') 0)
   = Inr [make_entry (example_candidate ''b'' [ustr ''py''] [ustr ''dev''])
            \<lparr>overall_score = 80, skills_score = 100, experience_score = 100,
             education_score = 0, breakdown = Some WEIGHTS, error = None\<rparr>,
          make_entry (example_candidate ''a'' [ustr ''py''] [])
            \<lparr>overall_score = 50, skills_score = 100, experience_score = 0,
             education_score = 0, breakdown = Some WEIGHTS, error = None\<rparr>,
          make_entry (example_candidate ''c'' [ustr ''py''] [])
            \<lparr>overall_score = 50, skills_score = 100, experience_score = 0,
             education_score = 0, breakdown = Some WEIGHTS, error = None\<rparr>]"
  by (simp add: rank_candidates_def example_rank_loop sort_reverse_def make_entry_def)

theorem rank_candidates_sorted_stable_witness:
  "\<exists>ranked. fst (rank_candidates (table_embedder example_table) example_candidates
        (ustr ''dev'') 0) = Inr ranked
     \<and> map entry_id ranked = [Some (ustr ''b''), Some (ustr ''a''), Some (ustr ''c'')]
     \<and> map overall_score ranked = [80, 50, 50]
     \<and> length ranked = length example_candidates"
proof -
  have dim: "\<forall>t w v. fst (get_embedding (table_embedder example_table) t w) = Inr v
      \<longrightarrow> v = [] \<or> length v = 2"
    using example_table_dim by (simp add: table_embedder_def table_lookup_def)
  note inst = rank_candidates_sorted_stable [of "table_embedder example_table" 2
        example_candidates "ustr ''dev''" 0]
  obtain ranked where ranked: "fst (rank_candidates (table_embedder example_table)
      example_candidates (ustr ''dev'') 0) = Inr ranked"
    using inst [THEN conjunct1, THEN mp, OF dim] by (rule exE)
  have len: "length ranked = length example_candidates"
    using inst [THEN conjunct2, THEN spec, THEN mp, OF ranked] by (elim exE conjE)
  have ids: "map entry_id ranked = [Some (ustr ''b''), Some (ustr ''a''), Some (ustr ''c'')]"
    using ranked unfolding example_ranking by (auto simp add: make_entry_def example_candidate_def)
  have scores: "map overall_score ranked = [80, 50, 50]"
    using ranked unfolding example_ranking by (auto simp add: make_entry_def)
  show ?thesis
    using ranked ids scores len by (intro exI [of _ ranked] conjI)
qed

section \<open>Properties of the queue and the worker\<close>

lemma oldest_None: "oldest rs = None \<longleftrightarrow> rs = []"
  by (induction rs) (auto split: option.splits)

lemma oldest_mem: "oldest rs = Some r \<Longrightarrow> r \<in> set rs"
  by (induction rs arbitrary: r) (auto split: option.splits if_splits)

lemma oldest_le: "oldest rs = Some r \<Longrightarrow> \<forall>x\<in>set rs. tq_created_at r \<le> tq_created_at x"
proof (induction rs arbitrary: r)
  case Nil
  then show ?case by simp
next
  case (Cons y ys)
  show ?case
  proof (cases "oldest ys")
    case None
    then have "ys = []" by (simp add: oldest_None)
    then show ?thesis using Cons.prems by simp
  next
    case (Some r')
    have le: "\<forall>z\<in>set ys. tq_created_at r' \<le> tq_created_at z"
      using Cons.IH [OF Some] .
    show ?thesis
    proof (cases "tq_created_at y \<le> tq_created_at r'")
      case True
      then have "r = y" using Cons.prems Some by simp
      then show ?thesis using True le by fastforce
    next
      case False
      then have "r = r'" using Cons.prems Some by simp
      then show ?thesis using False le by fastforce
    qed
  qed
qed

lemma oldest_least:
  assumes "r \<in> set rs" "\<forall>x\<in>set rs. x \<noteq> r \<longrightarrow> tq_created_at r < tq_created_at x"
  shows "oldest rs = Some r"
proof -
  have "rs \<noteq> []" using assms(1) by auto
  then obtain r' where r': "oldest rs = Some r'"
    using oldest_None [of rs] by (cases "oldest rs") simp_all
  have "r' \<in> set rs" using r' by (rule oldest_mem)
  moreover have "tq_created_at r' \<le> tq_created_at r" using oldest_le [OF r'] assms(1) by blast
  ultimately have "r' = r" using assms(2) by fastforce
  then show ?thesis using r' by simp
qed

lemma queued_optimize_subset: "set (queued_optimize db) \<subseteq> set (task_queue db)"
  by (auto simp add: queued_optimize_def)

lemma queued_after_update:
  assumes d: "distinct (map tq_id rows)" and row: "row \<in> set rows"
      and f: "tq_status (f row) \<noteq> task_queued"
  shows "set (filter (\<lambda>r. tq_status r = task_queued \<and> tq_task_type r = task_optimize)
               (map (\<lambda>r. if tq_id r = tq_id row then f r else r) rows))
       = set (filter (\<lambda>r. tq_status r = task_queued \<and> tq_task_type r = task_optimize) rows)
         - {row}"
proof -
  have same: "tq_id r = tq_id row \<longleftrightarrow> r = row" if "r \<in> set rows" for r
    using d row that by (auto simp add: distinct_map inj_on_def)
  have "map (\<lambda>r. if tq_id r = tq_id row then f r else r) rows
      = map (\<lambda>r. if r = row then f row else r) rows"
    by (rule map_cong [OF refl]) (simp add: same)
  then show ?thesis using f by auto
qed

lemma claim_next_effect:
  assumes d: "distinct (map tq_id (task_queue db))"
      and o: "oldest (queued_optimize db) = Some row"
  shows "fst (claim_next now db)
           = Some \<lparr>task_id = tq_id row, task_payload = tq_payload row,
                   task_attempts = tq_attempts row\<rparr>"
    and "map tq_id (task_queue (snd (claim_next now db))) = map tq_id (task_queue db)"
    and "set (queued_optimize (snd (claim_next now db))) = set (queued_optimize db) - {row}"
    and "task_queue (snd (claim_next now db))
           = map (\<lambda>r. if r = row
                       then row\<lparr>tq_status := task_processing,
                                tq_attempts := tq_attempts row + 1, tq_updated_at := now\<rparr>
                       else r) (task_queue db)"
proof -
  have row: "row \<in> set (task_queue db)"
    using oldest_mem [OF o] queued_optimize_subset by blast
  have same: "tq_id r = tq_id row \<longleftrightarrow> r = row" if "r \<in> set (task_queue db)" for r
    using d row that by (auto simp add: distinct_map inj_on_def)
  show "fst (claim_next now db)
           = Some \<lparr>task_id = tq_id row, task_payload = tq_payload row,
                   task_attempts = tq_attempts row\<rparr>"
    using o by (simp add: claim_next_def)
  show "map tq_id (task_queue (snd (claim_next now db))) = map tq_id (task_queue db)"
    using o by (simp add: claim_next_def comp_def if_distrib [of tq_id] cong: if_cong)
  show "set (queued_optimize (snd (claim_next now db))) = set (queued_optimize db) - {row}"
    using o queued_after_update [OF d row, of "\<lambda>r. r\<lparr>tq_status := task_processing,
        tq_attempts := tq_attempts r + 1, tq_updated_at := now\<rparr>"]
    by (simp add: claim_next_def queued_optimize_def)
  show "task_queue (snd (claim_next now db))
           = map (\<lambda>r. if r = row
                       then row\<lparr>tq_status := task_processing,
                                tq_attempts := tq_attempts row + 1, tq_updated_at := now\<rparr>
                       else r) (task_queue db)"
    using o by (simp add: claim_next_def same cong: map_cong)
qed

lemma persist_result_task_queue:
  "persist_result now pl result m db = Inr db' \<Longrightarrow> task_queue db' = task_queue db"
  by (auto simp add: persist_result_def create_optimization_def update_job_status_def
      split: option.splits sum.splits if_splits)

lemma mark_failed_ids: "map tq_id (task_queue (mark_failed now i e db)) = map tq_id (task_queue db)"
  by (simp add: mark_failed_def comp_def if_distrib [of tq_id] cong: if_cong)

lemma mark_failed_queued:
  assumes "\<forall>r\<in>set (task_queue db). tq_id r = i \<longrightarrow> tq_status r \<noteq> task_queued"
  shows "queued_optimize (mark_failed now i e db) = queued_optimize db"
proof -
  have "filter (\<lambda>r. tq_status r = task_queued \<and> tq_task_type r = task_optimize)
          (map (\<lambda>r. if tq_id r = i
                     then r\<lparr>tq_status := task_failed, tq_last_error := Some (str_exn e),
                            tq_updated_at := now\<rparr>
                     else r) rows)
      = filter (\<lambda>r. tq_status r = task_queued \<and> tq_task_type r = task_optimize) rows"
    if "\<forall>r\<in>set rows. tq_id r = i \<longrightarrow> tq_status r \<noteq> task_queued"
    for rows :: "TaskQueue list"
    using that by (induction rows) auto
  then show ?thesis using assms by (simp add: mark_failed_def queued_optimize_def)
qed

lemma process_task_queue:
  "task_queue (snd (process_task isalpha llm time_time now t optimizer db)) = task_queue db
   \<or> (\<exists>e. task_queue (snd (process_task isalpha llm time_time now t optimizer db))
          = task_queue (mark_failed now (task_id t) e db))"
  by (auto simp add: process_task_def Let_def persist_result_task_queue
      split: prod.splits sum.splits)

lemma process_task_effect:
  assumes "\<forall>r\<in>set (task_queue db). tq_id r = task_id t \<longrightarrow> tq_status r \<noteq> task_queued"
  shows "map tq_id (task_queue (snd (process_task isalpha llm time_time now t optimizer db)))
           = map tq_id (task_queue db)"
    and "queued_optimize (snd (process_task isalpha llm time_time now t optimizer db))
           = queued_optimize db"
proof -
  let ?db = "snd (process_task isalpha llm time_time now t optimizer db)"
  consider "task_queue ?db = task_queue db"
    | e where "task_queue ?db = task_queue (mark_failed now (task_id t) e db)"
    using process_task_queue [of isalpha llm time_time now t optimizer db] by blast
  then have "map tq_id (task_queue ?db) = map tq_id (task_queue db)
      \<and> queued_optimize ?db = queued_optimize db"
  proof cases
    case 1
    then show ?thesis by (simp add: queued_optimize_def)
  next
    case 2
    then show ?thesis
      using mark_failed_ids [of now "task_id t" e db] mark_failed_queued [OF assms, of now e]
      by (simp add: queued_optimize_def)
  qed
  then show "map tq_id (task_queue ?db) = map tq_id (task_queue db)"
    and "queued_optimize ?db = queued_optimize db" by simp_all
qed

lemma worker_cycle_effect:
  assumes d: "distinct (map tq_id (task_queue db))"
      and o: "oldest (queued_optimize db) = Some row"
  shows "map_option task_id (fst (worker_cycle isalpha llm time_time now optimizer db))
           = Some (tq_id row)"
    and "map tq_id (task_queue (snd (snd (worker_cycle isalpha llm time_time now optimizer db))))
           = map tq_id (task_queue db)"
    and "set (queued_optimize (snd (snd (worker_cycle isalpha llm time_time now optimizer db))))
           = set (queued_optimize db) - {row}"
proof -
  let ?t = "\<lparr>task_id = tq_id row, task_payload = tq_payload row, task_attempts = tq_attempts row\<rparr>"
  let ?db' = "snd (claim_next now db)"
  have row: "row \<in> set (task_queue db)"
    using oldest_mem [OF o] queued_optimize_subset by blast
  have same: "tq_id r = tq_id row \<longleftrightarrow> r = row" if "r \<in> set (task_queue db)" for r
    using d row that by (auto simp add: distinct_map inj_on_def)
  have nq: "\<forall>r\<in>set (task_queue ?db'). tq_id r = task_id ?t \<longrightarrow> tq_status r \<noteq> task_queued"
    unfolding claim_next_effect(4) [OF d o] using same by auto
  let ?p = "process_task isalpha llm time_time now ?t optimizer ?db'"
  have w: "worker_cycle isalpha llm time_time now optimizer db = (Some ?t, fst ?p, snd ?p)"
    using claim_next_effect(1) [OF d o, of now]
    by (simp add: worker_cycle_def split_def Let_def)
  show "map_option task_id (fst (worker_cycle isalpha llm time_time now optimizer db))
           = Some (tq_id row)"
    using w by simp
  show "map tq_id (task_queue (snd (snd (worker_cycle isalpha llm time_time now optimizer db))))
           = map tq_id (task_queue db)"
    using w process_task_effect(1) [OF nq, of isalpha llm time_time now optimizer]
      claim_next_effect(2) [OF d o, of now] by simp
  show "set (queued_optimize (snd (snd (worker_cycle isalpha llm time_time now optimizer db))))
           = set (queued_optimize db) - {row}"
    using w process_task_effect(2) [OF nq, of isalpha llm time_time now optimizer]
      claim_next_effect(3) [OF d o, of now] by simp
qed

lemma not_reclaimed:
  assumes d: "distinct (map tq_id (task_queue db))"
      and row: "row \<in> set (task_queue db)"
      and ids: "map tq_id (task_queue db') = map tq_id (task_queue db)"
      and q: "set (queued_optimize db') \<subseteq> set (task_queue db) - {row}"
  shows "map_option task_id (fst (claim_next now db')) \<noteq> Some (tq_id row)"
proof (cases "oldest (queued_optimize db')")
  case None
  then show ?thesis by (simp add: claim_next_def)
next
  case (Some r)
  then have "r \<in> set (task_queue db) - {row}" using oldest_mem q by blast
  then have "tq_id r \<noteq> tq_id row"
    using d row by (auto simp add: distinct_map inj_on_def)
  then show ?thesis using Some by (simp add: claim_next_def)
qed

lemma three_claims:
  assumes d: "distinct (map tq_id (task_queue db))"
      and q: "set (queued_optimize db) = {r1, r2, r3}"
      and t: "tq_created_at r1 < tq_created_at r2" "tq_created_at r2 < tq_created_at r3"
  shows "map_option task_id (fst (claim_next n1 db)) = Some (tq_id r1)
       \<and> map_option task_id (fst (claim_next n2 (snd (claim_next n1 db)))) = Some (tq_id r2)
       \<and> map_option task_id (fst (claim_next n3 (snd (claim_next n2 (snd (claim_next n1 db))))))
           = Some (tq_id r3)"
proof -
  let ?db1 = "snd (claim_next n1 db)"
  let ?db2 = "snd (claim_next n2 ?db1)"
  have ne: "r1 \<noteq> r2" "r1 \<noteq> r3" "r2 \<noteq> r3" using t by auto
  have o1: "oldest (queued_optimize db) = Some r1"
    by (rule oldest_least) (use q t in auto)
  have d1: "distinct (map tq_id (task_queue ?db1))"
    using d claim_next_effect(2) [OF d o1, of n1] by simp
  have q1: "set (queued_optimize ?db1) = {r2, r3}"
    using claim_next_effect(3) [OF d o1, of n1] q ne by auto
  have o2: "oldest (queued_optimize ?db1) = Some r2"
    by (rule oldest_least) (use q1 t in auto)
  have d2: "distinct (map tq_id (task_queue ?db2))"
    using d1 claim_next_effect(2) [OF d1 o2, of n2] by simp
  have q2: "set (queued_optimize ?db2) = {r3}"
    using claim_next_effect(3) [OF d1 o2, of n2] q1 ne by auto
  have o3: "oldest (queued_optimize ?db2) = Some r3"
    by (rule oldest_least) (use q2 in auto)
  show ?thesis
    using claim_next_effect(1) [OF d o1, of n1] claim_next_effect(1) [OF d1 o2, of n2]
      claim_next_effect(1) [OF d2 o3, of n3]
    by simp
qed

lemma three_cycles:
  assumes d: "distinct (map tq_id (task_queue db))"
      and q: "set (queued_optimize db) = {r1, r2, r3}"
      and t: "tq_created_at r1 < tq_created_at r2" "tq_created_at r2 < tq_created_at r3"
  shows "(let w1 = worker_cycle isalpha llm time_time n1 optimizer db;
              w2 = worker_cycle isalpha llm time_time n2 (fst (snd w1)) (snd (snd w1));
              w3 = worker_cycle isalpha llm time_time n3 (fst (snd w2)) (snd (snd w2))
          in map_option task_id (fst w1) = Some (tq_id r1)
           \<and> map_option task_id (fst w2) = Some (tq_id r2)
           \<and> map_option task_id (fst w3) = Some (tq_id r3))"
proof -
  let ?w1 = "worker_cycle isalpha llm time_time n1 optimizer db"
  let ?w2 = "worker_cycle isalpha llm time_time n2 (fst (snd ?w1)) (snd (snd ?w1))"
  let ?db1 = "snd (snd ?w1)"
  let ?db2 = "snd (snd ?w2)"
  have ne: "r1 \<noteq> r2" "r1 \<noteq> r3" "r2 \<noteq> r3" using t by auto
  have o1: "oldest (queued_optimize db) = Some r1"
    by (rule oldest_least) (use q t in auto)
  have d1: "distinct (map tq_id (task_queue ?db1))"
    using d worker_cycle_effect(2) [OF d o1, of isalpha llm time_time n1 optimizer] by simp
  have q1: "set (queued_optimize ?db1) = {r2, r3}"
    using worker_cycle_effect(3) [OF d o1, of isalpha llm time_time n1 optimizer] q ne by auto
  have o2: "oldest (queued_optimize ?db1) = Some r2"
    by (rule oldest_least) (use q1 t in auto)
  have d2: "distinct (map tq_id (task_queue ?db2))"
    using d1 worker_cycle_effect(2) [OF d1 o2, of isalpha llm time_time n2 "fst (snd ?w1)"]
    by simp
  have q2: "set (queued_optimize ?db2) = {r3}"
    using worker_cycle_effect(3) [OF d1 o2, of isalpha llm time_time n2 "fst (snd ?w1)"] q1 ne
    by auto
  have o3: "oldest (queued_optimize ?db2) = Some r3"
    by (rule oldest_least) (use q2 in auto)
  show ?thesis
    unfolding Let_def
    using worker_cycle_effect(1) [OF d o1, of isalpha llm time_time n1 optimizer]
      worker_cycle_effect(1) [OF d1 o2, of isalpha llm time_time n2 "fst (snd ?w1)"]
      worker_cycle_effect(1) [OF d2 o3, of isalpha llm time_time n3 "fst (snd ?w2)"]
    by (intro conjI)
qed

text \<open>
  Claim C5. Let the ids of the rows of \<^verbatim>\<open>task_queue\<close> be distinct (the id is the primary
  key). If no row is queued with type \<^verbatim>\<open>optimize\<close>, the claim step returns nothing and
  changes nothing. Otherwise it returns the id and payload of a queued \<^verbatim>\<open>optimize\<close> row of
  least \<^verbatim>\<open>created_at\<close>, with the attempts the row had before, and in the table exactly that
  row is changed: its status is \<^verbatim>\<open>processing\<close> and its attempts are one more. The
  next claim does not return that task, whether it follows at once or after the task has
  been processed. If the queued \<^verbatim>\<open>optimize\<close> rows are three rows of times T1 < T2 < T3, then
  three successive claims, and three successive rounds of the worker, return them in that
  order.
\<close>

theorem claim_next_semantics:
  assumes d: "distinct (map tq_id (task_queue db))"
  shows "(queued_optimize db = [] \<longrightarrow> claim_next now db = (None, db))
   \<and> (queued_optimize db \<noteq> [] \<longrightarrow>
        (\<exists>row. row \<in> set (queued_optimize db)
           \<and> (\<forall>r\<in>set (queued_optimize db). tq_created_at row \<le> tq_created_at r)
           \<and> fst (claim_next now db)
               = Some \<lparr>task_id = tq_id row, task_payload = tq_payload row,
                       task_attempts = tq_attempts row\<rparr>
           \<and> task_queue (snd (claim_next now db))
               = map (\<lambda>r. if r = row
                           then row\<lparr>tq_status := task_processing,
                                    tq_attempts := tq_attempts row + 1,
                                    tq_updated_at := now\<rparr>
                           else r) (task_queue db)
           \<and> map_option task_id (fst (claim_next now' (snd (claim_next now db))))
               \<noteq> Some (tq_id row)
           \<and> map_option task_id (fst (claim_next now'
                 (snd (snd (worker_cycle isalpha llm time_time now optimizer db)))))
               \<noteq> Some (tq_id row)))
   \<and> (set (queued_optimize db) = {r1, r2, r3}
        \<and> tq_created_at r1 < tq_created_at r2 \<and> tq_created_at r2 < tq_created_at r3 \<longrightarrow>
        (map_option task_id (fst (claim_next n1 db)) = Some (tq_id r1)
         \<and> map_option task_id (fst (claim_next n2 (snd (claim_next n1 db)))) = Some (tq_id r2)
         \<and> map_option task_id (fst (claim_next n3 (snd (claim_next n2 (snd (claim_next n1 db))))))
             = Some (tq_id r3))
        \<and> (let w1 = worker_cycle isalpha llm time_time n1 optimizer db;
                w2 = worker_cycle isalpha llm time_time n2 (fst (snd w1)) (snd (snd w1));
                w3 = worker_cycle isalpha llm time_time n3 (fst (snd w2)) (snd (snd w2))
            in map_option task_id (fst w1) = Some (tq_id r1)
             \<and> map_option task_id (fst w2) = Some (tq_id r2)
             \<and> map_option task_id (fst w3) = Some (tq_id r3)))"
proof (intro conjI impI)
  assume "queued_optimize db = []"
  then show "claim_next now db = (None, db)" by (simp add: claim_next_def)
next
  assume "queued_optimize db \<noteq> []"
  then obtain row where o: "oldest (queued_optimize db) = Some row"
    using oldest_None [of "queued_optimize db"] by (cases "oldest (queued_optimize db)") simp_all
  have mem: "row \<in> set (queued_optimize db)" using o by (rule oldest_mem)
  then have row: "row \<in> set (task_queue db)" using queued_optimize_subset by blast
  have le: "\<forall>r\<in>set (queued_optimize db). tq_created_at row \<le> tq_created_at r"
    using o by (rule oldest_le)
  have again: "map_option task_id (fst (claim_next now' (snd (claim_next now db))))
      \<noteq> Some (tq_id row)"
  proof (rule not_reclaimed [OF d row])
    show "map tq_id (task_queue (snd (claim_next now db))) = map tq_id (task_queue db)"
      by (rule claim_next_effect(2) [OF d o])
    show "set (queued_optimize (snd (claim_next now db))) \<subseteq> set (task_queue db) - {row}"
      using claim_next_effect(3) [OF d o, of now] queued_optimize_subset [of db] by auto
  qed
  have later: "map_option task_id (fst (claim_next now'
        (snd (snd (worker_cycle isalpha llm time_time now optimizer db)))))
      \<noteq> Some (tq_id row)"
  proof (rule not_reclaimed [OF d row])
    show "map tq_id (task_queue (snd (snd (worker_cycle isalpha llm time_time now optimizer db))))
        = map tq_id (task_queue db)"
      by (rule worker_cycle_effect(2) [OF d o])
    show "set (queued_optimize (snd (snd (worker_cycle isalpha llm time_time now optimizer db))))
        \<subseteq> set (task_queue db) - {row}"
      using worker_cycle_effect(3) [OF d o, of isalpha llm time_time now optimizer]
        queued_optimize_subset [of db] by auto
  qed
  show "\<exists>row. row \<in> set (queued_optimize db)
           \<and> (\<forall>r\<in>set (queued_optimize db). tq_created_at row \<le> tq_created_at r)
           \<and> fst (claim_next now db)
               = Some \<lparr>task_id = tq_id row, task_payload = tq_payload row,
                       task_attempts = tq_attempts row\<rparr>
           \<and> task_queue (snd (claim_next now db))
               = map (\<lambda>r. if r = row
                           then row\<lparr>tq_status := task_processing,
                                    tq_attempts := tq_attempts row + 1,
                                    tq_updated_at := now\<rparr>
                           else r) (task_queue db)
           \<and> map_option task_id (fst (claim_next now' (snd (claim_next now db))))
               \<noteq> Some (tq_id row)
           \<and> map_option task_id (fst (claim_next now'
                 (snd (snd (worker_cycle isalpha llm time_time now optimizer db)))))
               \<noteq> Some (tq_id row)"
    using mem le claim_next_effect(1) [OF d o, of now] claim_next_effect(4) [OF d o, of now]
      again later
    by (intro exI [of _ row] conjI)
next
  assume a: "set (queued_optimize db) = {r1, r2, r3}
        \<and> tq_created_at r1 < tq_created_at r2 \<and> tq_created_at r2 < tq_created_at r3"
  show "map_option task_id (fst (claim_next n1 db)) = Some (tq_id r1)"
    using three_claims [OF d, of r1 r2 r3 n1 n2 n3] a by simp
  show "map_option task_id (fst (claim_next n2 (snd (claim_next n1 db)))) = Some (tq_id r2)"
    using three_claims [OF d, of r1 r2 r3 n1 n2 n3] a by simp
  show "map_option task_id (fst (claim_next n3 (snd (claim_next n2 (snd (claim_next n1 db))))))
             = Some (tq_id r3)"
    using three_claims [OF d, of r1 r2 r3 n1 n2 n3] a by simp
  show "let w1 = worker_cycle isalpha llm time_time n1 optimizer db;
            w2 = worker_cycle isalpha llm time_time n2 (fst (snd w1)) (snd (snd w1));
            w3 = worker_cycle isalpha llm time_time n3 (fst (snd w2)) (snd (snd w2))
        in map_option task_id (fst w1) = Some (tq_id r1)
         \<and> map_option task_id (fst w2) = Some (tq_id r2)
         \<and> map_option task_id (fst w3) = Some (tq_id r3)"
    using a by (intro three_cycles [OF d]) simp_all
qed

lemma example_queue_rows:
  "task_queue example_queue = [example_row ''t2'' 20, example_row ''t1'' 10, example_row ''t3'' 30]"
  by (simp add: example_queue_def enqueue_task_def example_row_def)

theorem claim_next_semantics_witness:
  "distinct (map tq_id (task_queue example_queue))
   \<and> set (queued_optimize example_queue)
       = {example_row ''t1'' 10, example_row ''t2'' 20, example_row ''t3'' 30}
   \<and> map_option task_id (fst (claim_next 40 example_queue)) = Some (ustr ''t1'')
   \<and> map_option task_id (fst (claim_next 41 (snd (claim_next 40 example_queue))))
       = Some (ustr ''t2'')
   \<and> map_option task_id (fst (claim_next 42 (snd (claim_next 41 (snd (claim_next 40
         example_queue)))))) = Some (ustr ''t3'')
   \<and> (let w1 = worker_cycle isalpha_latin_arabic always_invalid_llm real 40
                  (ResumeOptimizer_init 0) example_queue;
           w2 = worker_cycle isalpha_latin_arabic always_invalid_llm real 41
                  (fst (snd w1)) (snd (snd w1));
           w3 = worker_cycle isalpha_latin_arabic always_invalid_llm real 42
                  (fst (snd w2)) (snd (snd w2))
       in map_option task_id (fst w1) = Some (ustr ''t1'')
        \<and> map_option task_id (fst w2) = Some (ustr ''t2'')
        \<and> map_option task_id (fst w3) = Some (ustr ''t3''))"
proof -
  have d: "distinct (map tq_id (task_queue example_queue))"
    by (simp add: example_queue_rows example_row_def)
  have q: "set (queued_optimize example_queue)
       = {example_row ''t1'' 10, example_row ''t2'' 20, example_row ''t3'' 30}"
    by (auto simp add: queued_optimize_def example_queue_rows example_row_def)
  have a: "set (queued_optimize example_queue)
       = {example_row ''t1'' 10, example_row ''t2'' 20, example_row ''t3'' 30}
     \<and> tq_created_at (example_row ''t1'' 10) < tq_created_at (example_row ''t2'' 20)
     \<and> tq_created_at (example_row ''t2'' 20) < tq_created_at (example_row ''t3'' 30)"
    using q by (simp add: example_row_def)
  have ids: "tq_id (example_row ''t1'' 10) = ustr ''t1''" "tq_id (example_row ''t2'' 20) = ustr ''t2''"
      "tq_id (example_row ''t3'' 30) = ustr ''t3''"
    by (simp_all add: example_row_def)
  note inst = claim_next_semantics [OF d, of 40 40 isalpha_latin_arabic always_invalid_llm real
      "ResumeOptimizer_init 0" "example_row ''t1'' 10" "example_row ''t2'' 20"
      "example_row ''t3'' 30" 40 41 42]
  note r = inst [THEN conjunct2, THEN conjunct2, THEN mp, OF a, unfolded ids]
  show ?thesis
    using d q r by (simp only: conj_assoc simp_thms)
qed

lemma example_optimize:
  "optimize isalpha_latin_arabic (scripted_llm (example_core (ustr ''Engineer'')) []) real
     (example_payload (ustr ''en'') (ustr ''en'')) (ResumeOptimizer_init 0)
   = ((\<lparr>score = 80, missing_keywords = [ustr ''SQL''], covered_keywords = [ustr ''Python''],
        change_log = [ustr ''Added summary''], preview_markdown = ustr ''Engineer'',
        detected_resume_lang = None, detected_jd_lang = None,
        extracted_entities = Some empty_entities, alignment_insights = Some empty_alignment\<rparr>,
       \<lparr>invalid_json_attempts = 0, total_attempts = 1, latency_seconds = py_round 3 2,
        last_run_valid = True\<rparr>),
      snd (optimize_stages (scripted_llm (example_core (ustr ''Engineer'')) []) real
        (example_payload (ustr ''en'') (ustr ''en'')) (ResumeOptimizer_init 0)))"
proof -
  have "\<not> needs_translation isalpha_latin_arabic (ustr ''Engineer'') (ustr ''en'')"
    by (simp add: needs_translation_def arabic_ratio_def ARABIC_LETTER_RE_def ustr_def)
  then show ?thesis
    by (simp add: optimize_def optimize_build_def scripted_stages example_core_def or_opt_def
        or_str_def)
qed

lemma example_claim:
  "claim_next 20 example_database
   = (Some \<lparr>task_id = ustr ''task-1'', task_payload = example_payload (ustr ''en'') (ustr ''en''),
            task_attempts = 0\<rparr>,
      \<lparr>task_queue = [\<lparr>tq_id = ustr ''task-1'', tq_task_type = task_optimize,
                       tq_payload = example_payload (ustr ''en'') (ustr ''en''),
                       tq_status = task_processing, tq_attempts = 1, tq_last_error = None,
                       tq_created_at = 10, tq_updated_at = 20\<rparr>],
       jobs = [\<lparr>job_id = ustr ''job-1'', job_status = job_queued, job_updated_at = 10\<rparr>],
       optimizations = [], resumes = [], resume_versions = []\<rparr>)"
  by (simp add: claim_next_def example_database_def enqueue_task_def queued_optimize_def)

text \<open>
  Claim C1, run on the code. One job and one queued task for it; the backend answers
  every stage. The round of the worker claims the task, the pipeline succeeds, the
  optimization is stored and the job is set to \<^verbatim>\<open>complete\<close>; the task row is left in
  \<^verbatim>\<open>processing\<close>, not \<^verbatim>\<open>complete\<close>.
\<close>

theorem successful_task_stays_processing:
  "map_option task_id (fst (worker_cycle isalpha_latin_arabic
      (scripted_llm (example_core (ustr ''Engineer'')) []) real 20 (ResumeOptimizer_init 0)
      example_database)) = Some (ustr ''task-1'')
   \<and> last_run_valid (metrics (fst (snd (worker_cycle isalpha_latin_arabic
      (scripted_llm (example_core (ustr ''Engineer'')) []) real 20 (ResumeOptimizer_init 0)
      example_database))))
   \<and> map opt_score (optimizations (snd (snd (worker_cycle isalpha_latin_arabic
      (scripted_llm (example_core (ustr ''Engineer'')) []) real 20 (ResumeOptimizer_init 0)
      example_database)))) = [80]
   \<and> map job_status (jobs (snd (snd (worker_cycle isalpha_latin_arabic
      (scripted_llm (example_core (ustr ''Engineer'')) []) real 20 (ResumeOptimizer_init 0)
      example_database)))) = [job_complete]
   \<and> map tq_status (task_queue (snd (snd (worker_cycle isalpha_latin_arabic
      (scripted_llm (example_core (ustr ''Engineer'')) []) real 20 (ResumeOptimizer_init 0)
      example_database)))) = [task_processing]"
proof -
  have ids: "p_job_id (example_payload (ustr ''en'') (ustr ''en'')) = Some (ustr ''job-1'')"
      "p_user_id (example_payload (ustr ''en'') (ustr ''en'')) = Some (ustr ''user-1'')"
      "p_resume_id (example_payload (ustr ''en'') (ustr ''en'')) = None"
      "p_resume_version_id (example_payload (ustr ''en'') (ustr ''en'')) = None"
    by (simp_all add: example_payload_def payload_empty_def)
  have steps: "metrics (snd (optimize_stages (scripted_llm (example_core (ustr ''Engineer'')) [])
        real (example_payload (ustr ''en'') (ustr ''en'')) (ResumeOptimizer_init 0)))
      = \<lparr>invalid_json_attempts = 0, total_attempts = 1, latency_seconds = py_round 3 2,
         last_run_valid = True\<rparr>"
    by (simp add: scripted_stages)
  show ?thesis
    by (simp add: worker_cycle_def example_claim process_task_def example_optimize
        persist_result_def create_optimization_def update_job_status_def ids steps or_opt_def)
qed

text \<open>
  No step of the worker writes \<^verbatim>\<open>complete\<close> to a task row: a row that is \<^verbatim>\<open>complete\<close> after
  a round was so before it.
\<close>

lemma claim_next_never_completes:
  "task_complete \<in> tq_status ` set (task_queue (snd (claim_next now db)))
   \<Longrightarrow> task_complete \<in> tq_status ` set (task_queue db)"
  by (auto simp add: claim_next_def split: option.splits if_splits)

lemma process_task_never_completes:
  assumes "task_complete \<in> tq_status ` set (task_queue
      (snd (process_task isalpha llm time_time now t optimizer db)))"
  shows "task_complete \<in> tq_status ` set (task_queue db)"
proof -
  have "task_complete \<in> tq_status ` set (task_queue (mark_failed now i e db))
      \<Longrightarrow> task_complete \<in> tq_status ` set (task_queue db)" for i e
    by (auto simp add: mark_failed_def split: if_splits)
  note failed = this
  consider "task_queue (snd (process_task isalpha llm time_time now t optimizer db))
        = task_queue db"
    | e where "task_queue (snd (process_task isalpha llm time_time now t optimizer db))
        = task_queue (mark_failed now (task_id t) e db)"
    using process_task_queue [of isalpha llm time_time now t optimizer db] by blast
  then show ?thesis
  proof cases
    case 1
    then show ?thesis using assms by simp
  next
    case 2
    then show ?thesis using assms failed [of "task_id t" e] by simp
  qed
qed

lemma worker_cycle_never_completes:
  assumes "task_complete \<in> tq_status ` set (task_queue
      (snd (snd (worker_cycle isalpha llm time_time now optimizer db))))"
  shows "task_complete \<in> tq_status ` set (task_queue db)"
proof (cases "fst (claim_next now db)")
  case None
  then show ?thesis
    using assms by (simp add: worker_cycle_def claim_next_def split: option.splits prod.splits)
next
  case (Some t)
  then have "snd (snd (worker_cycle isalpha llm time_time now optimizer db))
      = snd (process_task isalpha llm time_time now t optimizer (snd (claim_next now db)))"
    by (simp add: worker_cycle_def split_def Let_def)
  then show ?thesis
    using assms process_task_never_completes claim_next_never_completes by metis
qed

end
